theory Spec2Isabelle
  imports Complex_Main "HOL-Library.Monad_Syntax"
begin

section \<open>Numbers, vectors and quaternions\<close>

text \<open>
  JavaScript numbers are modelled as \<^typ>\<open>real\<close>: arithmetic is exact, and rounding,
  infinities and NaN are outside the model, except in the double-arithmetic version of
  the PID controller's update. Where the source divides, HOL's \<open>x / 0 = 0\<close>
  is not what JavaScript computes (an infinity or NaN); the divisors of the two
  integration steps are \<open>totalMass\<close> and the definition \<open>inertia\<close>, and the section on
  them says when they are non-zero.

  \<open>THREE.Vector3\<close> and \<open>THREE.Quaternion\<close> belong to the three.js library; the
  operations the physics engine and the flight controller call are given here as the
  library computes them.
\<close>

record vec3 =
  vec_x :: real
  vec_y :: real
  vec_z :: real

record quat =
  quat_x :: real
  quat_y :: real
  quat_z :: real
  quat_w :: real

definition Vector3 :: "real \<Rightarrow> real \<Rightarrow> real \<Rightarrow> vec3" where
  "Vector3 a b c = \<lparr>vec_x = a, vec_y = b, vec_z = c\<rparr>"

definition vec_add :: "vec3 \<Rightarrow> vec3 \<Rightarrow> vec3" where
  "vec_add u v = \<lparr>vec_x = vec_x u + vec_x v, vec_y = vec_y u + vec_y v, vec_z = vec_z u + vec_z v\<rparr>"

definition vec_sub :: "vec3 \<Rightarrow> vec3 \<Rightarrow> vec3" where
  "vec_sub u v = \<lparr>vec_x = vec_x u - vec_x v, vec_y = vec_y u - vec_y v, vec_z = vec_z u - vec_z v\<rparr>"

definition multiplyScalar :: "vec3 \<Rightarrow> real \<Rightarrow> vec3" where
  "multiplyScalar v s = \<lparr>vec_x = vec_x v * s, vec_y = vec_y v * s, vec_z = vec_z v * s\<rparr>"

definition divideScalar :: "vec3 \<Rightarrow> real \<Rightarrow> vec3" where
  "divideScalar v s = multiplyScalar v (1 / s)"

definition vec_dot :: "vec3 \<Rightarrow> vec3 \<Rightarrow> real" where
  "vec_dot u v = vec_x u * vec_x v + vec_y u * vec_y v + vec_z u * vec_z v"

definition vec_length :: "vec3 \<Rightarrow> real" where
  "vec_length v = sqrt (vec_x v * vec_x v + vec_y v * vec_y v + vec_z v * vec_z v)"

text \<open>\<open>normalize()\<close> is \<open>divideScalar(length() || 1)\<close>.\<close>

definition vec_normalize :: "vec3 \<Rightarrow> vec3" where
  "vec_normalize v = divideScalar v (if vec_length v = 0 then 1 else vec_length v)"

definition applyQuaternion :: "vec3 \<Rightarrow> quat \<Rightarrow> vec3" where
  "applyQuaternion v q =
     (let x = vec_x v; y = vec_y v; z = vec_z v;
          qx = quat_x q; qy = quat_y q; qz = quat_z q; qw = quat_w q;
          ix = qw * x + qy * z - qz * y;
          iy = qw * y + qz * x - qx * z;
          iz = qw * z + qx * y - qy * x;
          iw = - qx * x - qy * y - qz * z
      in \<lparr>vec_x = ix * qw + iw * - qx + iy * - qz - iz * - qy,
          vec_y = iy * qw + iw * - qy + iz * - qx - ix * - qz,
          vec_z = iz * qw + iw * - qz + ix * - qy - iy * - qx\<rparr>)"

text \<open>\<open>new THREE.Quaternion().setFromEuler(new THREE.Euler(x, y, z, 'XYZ'))\<close>.\<close>

definition setFromEuler :: "real \<Rightarrow> real \<Rightarrow> real \<Rightarrow> quat" where
  "setFromEuler x y z =
     (let c1 = cos (x / 2); c2 = cos (y / 2); c3 = cos (z / 2);
          s1 = sin (x / 2); s2 = sin (y / 2); s3 = sin (z / 2)
      in \<lparr>quat_x = s1 * c2 * c3 + c1 * s2 * s3,
          quat_y = c1 * s2 * c3 - s1 * c2 * s3,
          quat_z = c1 * c2 * s3 + s1 * s2 * c3,
          quat_w = c1 * c2 * c3 - s1 * s2 * s3\<rparr>)"

definition quat_multiply :: "quat \<Rightarrow> quat \<Rightarrow> quat" where
  "quat_multiply a b =
     \<lparr>quat_x = quat_x a * quat_w b + quat_w a * quat_x b + quat_y a * quat_z b - quat_z a * quat_y b,
      quat_y = quat_y a * quat_w b + quat_w a * quat_y b + quat_z a * quat_x b - quat_x a * quat_z b,
      quat_z = quat_z a * quat_w b + quat_w a * quat_z b + quat_x a * quat_y b - quat_y a * quat_x b,
      quat_w = quat_w a * quat_w b - quat_x a * quat_x b - quat_y a * quat_y b - quat_z a * quat_z b\<rparr>"

definition quat_length :: "quat \<Rightarrow> real" where
  "quat_length q = sqrt (quat_x q * quat_x q + quat_y q * quat_y q + quat_z q * quat_z q + quat_w q * quat_w q)"

definition quat_normalize :: "quat \<Rightarrow> quat" where
  "quat_normalize q =
     (let l = quat_length q
      in if l = 0 then \<lparr>quat_x = 0, quat_y = 0, quat_z = 0, quat_w = 1\<rparr>
         else \<lparr>quat_x = quat_x q * (1 / l), quat_y = quat_y q * (1 / l),
               quat_z = quat_z q * (1 / l), quat_w = quat_w q * (1 / l)\<rparr>)"

text \<open>
  The \<open>y\<close> angle of \<open>new THREE.Euler().setFromQuaternion(q)\<close> (order XYZ): the arcsine
  of the rotation matrix entry \<open>m13 = 2 (x z + w y)\<close>, clamped to \<open>[-1, 1]\<close>.
\<close>

definition euler_y :: "quat \<Rightarrow> real" where
  "euler_y q = arcsin (max (- 1) (min 1 (2 * (quat_x q * quat_z q + quat_w q * quat_y q))))"

text \<open>\<open>Math.atan2(y, x)\<close> on finite arguments (signed zeros are not distinguished).\<close>

definition atan2 :: "real \<Rightarrow> real \<Rightarrow> real" where
  "atan2 y x =
     (if 0 < x then arctan (y / x)
      else if x < 0 \<and> 0 \<le> y then arctan (y / x) + pi
      else if x < 0 then arctan (y / x) - pi
      else if 0 < y then pi / 2
      else if y < 0 then - pi / 2
      else 0)"

section \<open>Perlin noise (\<open>js/utils/perlin-noise.js\<close>)\<close>

text \<open>
  The permutation table is shuffled from a seed drawn with \<open>Math.random()\<close>, so the
  table (512 entries, the 256-entry permutation twice) is a parameter of the model.
  \<open>Math.floor(x) & 255\<close> is the floor modulo 256.
\<close>

definition fade :: "real \<Rightarrow> real" where
  "fade t = t * t * t * (t * (t * 6 - 15) + 10)"

definition lerp :: "real \<Rightarrow> real \<Rightarrow> real \<Rightarrow> real" where
  "lerp t a b = a + t * (b - a)"

definition grad :: "nat \<Rightarrow> real \<Rightarrow> real \<Rightarrow> real \<Rightarrow> real" where
  "grad hash x y z =
     (let h = hash mod 16;
          u = (if h < 8 then x else y);
          v = (if h < 4 then y else if h = 12 \<or> h = 14 then x else z)
      in (if h mod 2 = 0 then u else - u) + (if (h div 2) mod 2 = 0 then v else - v))"

definition noise3D :: "nat list \<Rightarrow> real \<Rightarrow> real \<Rightarrow> real \<Rightarrow> real" where
  "noise3D p x0 y0 z0 =
     (let X = nat (\<lfloor>x0\<rfloor> mod 256); Y = nat (\<lfloor>y0\<rfloor> mod 256); Z = nat (\<lfloor>z0\<rfloor> mod 256);
          x = x0 - of_int \<lfloor>x0\<rfloor>; y = y0 - of_int \<lfloor>y0\<rfloor>; z = z0 - of_int \<lfloor>z0\<rfloor>;
          u = fade x; v = fade y; w = fade z;
          A = p ! X + Y; AA = p ! A + Z; AB = p ! (A + 1) + Z;
          B = p ! (X + 1) + Y; BA = p ! B + Z; BB = p ! (B + 1) + Z
      in lerp w
           (lerp v
              (lerp u (grad (p ! AA) x y z) (grad (p ! BA) (x - 1) y z))
              (lerp u (grad (p ! AB) x (y - 1) z) (grad (p ! BB) (x - 1) (y - 1) z)))
           (lerp v
              (lerp u (grad (p ! (AA + 1)) x y (z - 1)) (grad (p ! (BA + 1)) (x - 1) y (z - 1)))
              (lerp u (grad (p ! (AB + 1)) x (y - 1) (z - 1)) (grad (p ! (BB + 1)) (x - 1) (y - 1) (z - 1)))))"

section \<open>The physics engine (\<open>PhysicsEngine\<close>)\<close>

subsection \<open>Configuration, environment and state\<close>

text \<open>
  The nested configuration object is flattened: \<open>config.frame.size\<close> is \<open>frame_size\<close>,
  \<open>config.battery.cells\<close> is \<open>battery_cells\<close>, and so on. The frame material indexes the
  table \<open>frameMultiplier\<close>, which has exactly the three entries below; the frame and
  payload types are strings, as in the source. The field \<open>environment\<close> of the engine is
  \<open>environ\<close>, and its ambient temperature \<open>env_temperature\<close>.
\<close>

datatype material = Carbon | Aluminum | Plastic

record uav_config =
  frame_type :: string
  frame_size :: real
  frame_material :: material
  propellers_size :: real
  propellers_pitch :: real
  propellers_blades :: real
  motors_kv :: real
  battery_cells :: real
  battery_capacity :: real
  payload_type :: string

record environment =
  env_temperature :: real
  windSpeed :: real
  windDirection :: real

text \<open>
  What the engine reaches through globals: \<open>window.uavSimulator.terrainGenerator\<close>
  (absent, or a height query \<open>getTerrainHeight(x, z)\<close>) and the permutation table of the
  global \<open>perlin\<close> instance.
\<close>

record world =
  terrainGenerator :: "(real \<Rightarrow> real \<Rightarrow> real) option"
  permutation :: "nat list"

record controls =
  throttle :: real
  pitch :: real
  roll :: real
  yaw :: real

record state =
  position :: vec3
  velocity :: vec3
  acceleration :: vec3
  rotation :: quat
  angularVelocity :: vec3
  motorSpeeds :: "real list"
  batteryVoltage :: real
  batteryPercentage :: real
  currentDraw :: real
  isArmed :: bool
  timestamp :: real
  temperature :: real
  isCollided :: bool

record engine =
  config :: uav_config
  environ :: environment
  state :: state
  gravity :: real
  airDensity :: real
  dragCoefficient :: real
  frontalArea :: real
  totalMass :: real
  thrustCoefficient :: real
  motorKv :: real
  maxRPM :: real
  maxOmega :: real
  maxThrustPerMotor :: real
  armLength :: real
  batteryCapacityAh :: real
  batteryUsedAh :: real
  homePosition :: vec3

subsection \<open>Derived properties and the constructor\<close>

fun isPrefixOf :: "string \<Rightarrow> string \<Rightarrow> bool" where
  "isPrefixOf [] s = True"
| "isPrefixOf (c # cs) [] = False"
| "isPrefixOf (c # cs) (d # ds) = (c = d \<and> isPrefixOf cs ds)"

fun str_includes :: "string \<Rightarrow> string \<Rightarrow> bool" where
  "str_includes [] pat = isPrefixOf pat []"
| "str_includes (c # cs) pat = (isPrefixOf pat (c # cs) \<or> str_includes cs pat)"

definition getMotorCount :: "uav_config \<Rightarrow> nat" where
  "getMotorCount c =
     (if str_includes (frame_type c) ''quad'' then 4
      else if frame_type c = ''hexa'' then 6
      else if frame_type c = ''octa'' then 8
      else 4)"

definition getPayloadMass :: "uav_config \<Rightarrow> real" where
  "getPayloadMass c =
     (case map_of [(''none'', 0), (''camera-small'', 50), (''camera-medium'', 100),
                   (''camera-large'', 200), (''sensor'', 50), (''delivery'', 300)] (payload_type c) of
        None \<Rightarrow> 0
      | Some m \<Rightarrow> m)"

fun frameMultiplier :: "material \<Rightarrow> real" where
  "frameMultiplier Carbon = 1.0"
| "frameMultiplier Aluminum = 1.3"
| "frameMultiplier Plastic = 1.5"

definition calculateTotalMass :: "uav_config \<Rightarrow> real" where
  "calculateTotalMass c =
     (let frameMass = 200 * (frame_size c / 450) * frameMultiplier (frame_material c);
          motorCount = real (getMotorCount c);
          motorMass = 40 * motorCount;
          propMass = propellers_size c * 2 * motorCount;
          batteryMass = battery_capacity c * 0.15;
          fcMass = 30;
          payloadMass = getPayloadMass c
      in frameMass + motorMass + propMass + batteryMass + fcMass + payloadMass)"

definition calculateAirDensity :: "environment \<Rightarrow> real" where
  "calculateAirDensity env =
     (let temp = env_temperature env + 273.15;
          tempRef = 288.15;
          densityRef = 1.225
      in densityRef * (tempRef / temp))"

definition calculateProperties :: "engine \<Rightarrow> engine" where
  "calculateProperties e =
     (let c = config e;
          propSize = propellers_size c * 0.0254;
          propPitch = propellers_pitch c;
          propBlades = propellers_blades c;
          bladeMultiplier = 1 + (propBlades - 2) * 0.1;
          tc = 0.00001 * propSize ^ 4 * propPitch * bladeMultiplier;
          kv = motors_kv c;
          bv = battery_cells c * 4.2;
          rpm = kv * bv;
          omega = (rpm * 2 * pi) / 60
      in e\<lparr>totalMass := calculateTotalMass c / 1000,
            thrustCoefficient := tc,
            motorKv := kv,
            maxRPM := rpm,
            maxOmega := omega,
            maxThrustPerMotor := tc * omega * omega,
            armLength := (frame_size c / 1000) / 2\<rparr>)"

definition initialState :: state where
  "initialState =
     \<lparr>position = Vector3 0 2 0, velocity = Vector3 0 0 0, acceleration = Vector3 0 0 0,
      rotation = \<lparr>quat_x = 0, quat_y = 0, quat_z = 0, quat_w = 1\<rparr>,
      angularVelocity = Vector3 0 0 0, motorSpeeds = [],
      batteryVoltage = 0, batteryPercentage = 100, currentDraw = 0,
      isArmed = False, timestamp = 0, temperature = 20, isCollided = False\<rparr>"

text \<open>The constructor, in the order of its assignments.\<close>

definition PhysicsEngine :: "uav_config \<Rightarrow> environment \<Rightarrow> engine" where
  "PhysicsEngine uavConfig environmentConfig =
     (let e0 = \<lparr>config = uavConfig, environ = environmentConfig, state = initialState,
                gravity = 9.81, airDensity = calculateAirDensity environmentConfig,
                dragCoefficient = 0.5, frontalArea = (frame_size uavConfig / 1000) ^ 2,
                totalMass = 0, thrustCoefficient = 0, motorKv = 0, maxRPM = 0, maxOmega = 0,
                maxThrustPerMotor = 0, armLength = 0,
                batteryCapacityAh = 0, batteryUsedAh = 0, homePosition = Vector3 0 0 0\<rparr>;
          e1 = calculateProperties e0;
          motorCount = getMotorCount uavConfig;
          s1 = (state e1)\<lparr>motorSpeeds := replicate motorCount 0\<rparr>;
          s2 = s1\<lparr>batteryVoltage := battery_cells uavConfig * 4.2\<rparr>
      in e1\<lparr>state := s2,
             batteryCapacityAh := battery_capacity uavConfig / 1000,
             batteryUsedAh := 0,
             homePosition := position s2\<rparr>)"

subsection \<open>Motor mixing\<close>

definition clamp01 :: "real \<Rightarrow> real" where
  "clamp01 v = max 0 (min 1 v)"

text \<open>
  \<open>motorSpeeds.fill(0)\<close> keeps the length of the array.
\<close>

definition fill0 :: "real list \<Rightarrow> real list" where
  "fill0 xs = replicate (length xs) 0"

text \<open>
  \<open>assignPrefix new xs\<close> is the array after \<open>xs[i] = new[i]\<close> for every
  \<open>i < new.length\<close> in increasing order: JavaScript extends an array that is shorter.
  \<open>mapPrefix n f xs\<close> is the array after the loop
  \<open>for (i = 0; i < n; i++) xs[i] = f(xs[i])\<close> on an array of at least \<open>n\<close> elements,
  which is what the mixing stage leaves behind.
\<close>

definition assignPrefix :: "real list \<Rightarrow> real list \<Rightarrow> real list" where
  "assignPrefix new xs = new @ drop (length new) xs"

definition mapPrefix :: "nat \<Rightarrow> (real \<Rightarrow> real) \<Rightarrow> real list \<Rightarrow> real list" where
  "mapPrefix n f xs = map f (take n xs) @ drop n xs"

text \<open>The four quad-X mixing equations (0 = front-right, 1 = back-left, 2 = front-left,
  3 = back-right).\<close>

definition quadMix :: "real \<Rightarrow> real \<Rightarrow> real \<Rightarrow> real \<Rightarrow> real list" where
  "quadMix baseThrottle p r y =
     [baseThrottle - p + r - y,
      baseThrottle + p - r - y,
      baseThrottle - p - r + y,
      baseThrottle + p + r + y]"

text \<open>
  The body of the response-delay loop for one motor. It runs after the mixed and clamped
  command has been stored in \<open>motorSpeeds[i]\<close>, so the target and the current speed are both
  read from the stored command.
\<close>

definition motorResponse :: "engine \<Rightarrow> real \<Rightarrow> real \<Rightarrow> real" where
  "motorResponse e dt stored =
     (let responseRate = 20;
          omegaMax = max (maxOmega e) 1;
          targetSpeed = stored * omegaMax;
          currentSpeed = stored * omegaMax;
          delta = (targetSpeed - currentSpeed) * responseRate * dt
      in (currentSpeed + delta) / omegaMax)"

definition updateMotorSpeeds :: "engine \<Rightarrow> controls \<Rightarrow> real \<Rightarrow> engine" where
  "updateMotorSpeeds e c dt =
     (let baseThrottle = max 0 (min 1 (throttle c));
          motorCount = getMotorCount (config e);
          mixed = (if motorCount = 4 then quadMix baseThrottle (pitch c) (roll c) (yaw c)
                   else replicate motorCount baseThrottle);
          ms1 = assignPrefix mixed (motorSpeeds (state e));
          ms2 = mapPrefix motorCount clamp01 ms1;
          ms3 = mapPrefix motorCount (motorResponse e dt) ms2
      in e\<lparr>state := (state e)\<lparr>motorSpeeds := ms3\<rparr>\<rparr>)"

subsection \<open>Collisions, forces and torques\<close>

definition checkCollisions :: "world \<Rightarrow> engine \<Rightarrow> engine" where
  "checkCollisions w e =
     (case terrainGenerator w of
        None \<Rightarrow> e
      | Some getTerrainHeight \<Rightarrow>
          (let s = state e;
               groundHeight = getTerrainHeight (vec_x (position s)) (vec_z (position s))
           in if vec_y (position s) < groundHeight then
                (let s1 = s\<lparr>position := (position s)\<lparr>vec_y := groundHeight\<rparr>\<rparr>
                 in if vec_length (velocity s1) > 10
                    then e\<lparr>state := s1\<lparr>isCollided := True, isArmed := False\<rparr>\<rparr>
                    else e\<lparr>state := s1\<rparr>)
              else e))"

definition totalThrust :: "engine \<Rightarrow> real" where
  "totalThrust e =
     foldl (\<lambda>total m. let omega = m * maxOmega e; thrust = thrustCoefficient e * omega * omega
                       in total + thrust) 0 (motorSpeeds (state e))"

definition calculateForces :: "world \<Rightarrow> engine \<Rightarrow> vec3" where
  "calculateForces w e =
     (let s = state e;
          altitude = vec_y (position s);
          rotorDiameter = propellers_size (config e) * 0.0254;
          thrust = (if altitude < rotorDiameter
                    then totalThrust e * (1 + 0.1 * (1 - altitude / rotorDiameter))
                    else totalThrust e);
          thrustWorld = applyQuaternion (Vector3 0 thrust 0) (rotation s);
          forces1 = vec_add (Vector3 0 0 0) thrustWorld;
          forces2 = vec_add forces1 (Vector3 0 (- totalMass e * gravity e) 0);
          speed = vec_length (velocity s);
          forces3 =
            (if speed > 0.01 then
               (let uavUp = applyQuaternion (Vector3 0 1 0) (rotation s);
                    velDir = vec_normalize (velocity s);
                    projection = \<bar>vec_dot uavUp velDir\<bar>;
                    areaTop = frame_size (config e) / 1000 * frame_size (config e) / 1000;
                    areaSide = frontalArea e;
                    effectiveArea = areaSide + (areaTop - areaSide) * projection;
                    dragMagnitude = 0.5 * airDensity e * dragCoefficient e * effectiveArea * speed * speed;
                    dragForce = multiplyScalar (vec_normalize (velocity s)) (- dragMagnitude)
                in vec_add forces2 dragForce)
             else forces2);
          wSpeed = windSpeed (environ e);
          windDir = windDirection (environ e) * pi / 180;
          windVelocity0 = Vector3 (sin windDir * wSpeed) 0 (cos windDir * wSpeed);
          time = timestamp s;
          pos = position s;
          p = permutation w;
          turbulence = Vector3
            (noise3D p (vec_x pos / 10) (vec_y pos / 10) (time * 0.5) * wSpeed * 0.3)
            (noise3D p (vec_x pos / 10 + 100) (vec_y pos / 10) (time * 0.5) * wSpeed * 0.2)
            (noise3D p (vec_x pos / 10) (vec_y pos / 10 + 100) (time * 0.5) * wSpeed * 0.3);
          windVelocity = vec_add windVelocity0 turbulence
      in if \<not> isArmed s then forces3
         else
           (let relativeVelocity = vec_sub (velocity s) windVelocity;
                relativeSpeed = vec_length relativeVelocity
            in if relativeSpeed > 0.01 then
                 (let windDragMagnitude = 0.5 * airDensity e * dragCoefficient e *
                        frontalArea e * relativeSpeed * relativeSpeed;
                      windForce = multiplyScalar (vec_normalize relativeVelocity) (- windDragMagnitude)
                  in vec_add forces3 windForce)
               else forces3))"

definition calculateTorques :: "engine \<Rightarrow> controls \<Rightarrow> vec3" where
  "calculateTorques e c =
     (let torques = \<lparr>vec_x = roll c * armLength e * maxThrustPerMotor e * 2,
                     vec_y = yaw c * 0.05 * maxThrustPerMotor e,
                     vec_z = pitch c * armLength e * maxThrustPerMotor e * 2\<rparr>;
          damping = 0.1
      in vec_sub torques (multiplyScalar (angularVelocity (state e)) damping))"

subsection \<open>Integration\<close>

definition updateLinearMotion :: "engine \<Rightarrow> vec3 \<Rightarrow> real \<Rightarrow> engine" where
  "updateLinearMotion e forces dt =
     (let s = state e;
          acc = divideScalar forces (totalMass e);
          vel = vec_add (velocity s) (multiplyScalar acc dt);
          pos = vec_add (position s) (multiplyScalar vel dt);
          s1 = s\<lparr>acceleration := acc, velocity := vel, position := pos\<rparr>
      in if vec_y pos < 0.1 then
           (let s2 = s1\<lparr>position := pos\<lparr>vec_y := 0.1\<rparr>,
                        velocity := \<lparr>vec_x = vec_x vel * 0.8,
                                     vec_y = max 0 (vec_y vel * - 0.3),
                                     vec_z = vec_z vel * 0.8\<rparr>\<rparr>
            in if \<not> isArmed s2
               then e\<lparr>state := s2\<lparr>velocity := (velocity s2)\<lparr>vec_x := 0, vec_z := 0\<rparr>,
                                    angularVelocity := Vector3 0 0 0\<rparr>\<rparr>
               else e\<lparr>state := s2\<rparr>)
         else e\<lparr>state := s1\<rparr>)"

text \<open>The local constant \<open>inertia\<close> of \<open>updateAngularMotion\<close>.\<close>

definition inertia :: "engine \<Rightarrow> real" where
  "inertia e = totalMass e * armLength e * armLength e"

definition updateAngularMotion :: "engine \<Rightarrow> vec3 \<Rightarrow> real \<Rightarrow> engine" where
  "updateAngularMotion e torques dt =
     (let s = state e;
          angularAccel = divideScalar torques (inertia e);
          av = vec_add (angularVelocity s) (multiplyScalar angularAccel dt);
          deltaQuat = setFromEuler (vec_x av * dt) (vec_y av * dt) (vec_z av * dt)
      in e\<lparr>state := s\<lparr>angularVelocity := av,
                         rotation := quat_normalize (quat_multiply (rotation s) deltaQuat)\<rparr>\<rparr>)"

subsection \<open>Battery\<close>

definition totalCurrent :: "engine \<Rightarrow> real" where
  "totalCurrent e =
     foldl (\<lambda>total m. let currentPerMotor = (batteryVoltage (state e) * motorKv e / 1000) * m * 0.5
                       in total + currentPerMotor) 0 (motorSpeeds (state e))"

text \<open>
  \<open>updateBattery\<close> in two parts: the accounting of current, charge and voltage, and the
  cutoff that ends the method.
\<close>

definition batteryAccounting :: "engine \<Rightarrow> real \<Rightarrow> engine" where
  "batteryAccounting e dt =
     (let current = totalCurrent e;
          used = batteryUsedAh e + (current * dt) / 3600;
          percentage = max 0 (100 * (1 - used / batteryCapacityAh e));
          cellCount = battery_cells (config e);
          vFull = cellCount * 4.2;
          vEmpty = cellCount * 3.5;
          vDrop = (vFull - vEmpty) * (used / batteryCapacityAh e);
          internalResistance = 0.02 * cellCount
      in e\<lparr>batteryUsedAh := used,
            state := (state e)\<lparr>currentDraw := current,
                                batteryPercentage := percentage,
                                batteryVoltage := vFull - vDrop - (current * internalResistance)\<rparr>\<rparr>)"

definition batteryCutoff :: "engine \<Rightarrow> engine" where
  "batteryCutoff e =
     (if batteryPercentage (state e) < 10 then e\<lparr>state := (state e)\<lparr>isArmed := False\<rparr>\<rparr> else e)"

definition updateBattery :: "engine \<Rightarrow> real \<Rightarrow> engine" where
  "updateBattery e dt = batteryCutoff (batteryAccounting e dt)"

subsection \<open>One tick, and the commands\<close>

text \<open>
  The stage of \<open>update\<close> between the collision short-circuit and \<open>checkCollisions\<close>:
  cooling with the motors stopped when disarmed, heating and mixing when armed.
\<close>

definition motorStage :: "engine \<Rightarrow> controls \<Rightarrow> real \<Rightarrow> engine" where
  "motorStage e c dt =
     (if \<not> isArmed (state e) then
        e\<lparr>state := (state e)
             \<lparr>temperature := max (env_temperature (environ e)) (temperature (state e) - dt),
              motorSpeeds := fill0 (motorSpeeds (state e))\<rparr>\<rparr>
      else
        (let load = currentDraw (state e) / 20
         in updateMotorSpeeds
              (e\<lparr>state := (state e)
                   \<lparr>temperature := min 100 (temperature (state e) + load * dt)\<rparr>\<rparr>)
              c dt))"

text \<open>The branch of \<open>update\<close> for a collided aircraft.\<close>

definition shortCircuit :: "engine \<Rightarrow> engine" where
  "shortCircuit e =
     e\<lparr>state := (state e)\<lparr>isArmed := False, motorSpeeds := fill0 (motorSpeeds (state e))\<rparr>\<rparr>"

definition update :: "world \<Rightarrow> engine \<Rightarrow> controls \<Rightarrow> real \<Rightarrow> engine" where
  "update w e c dt =
     (if isCollided (state e) then shortCircuit e
      else
        (let e1 = motorStage e c dt;
             e2 = checkCollisions w e1;
             forces = calculateForces w e2;
             torques = (if isArmed (state e2) then calculateTorques e2 c else Vector3 0 0 0);
             e3 = updateLinearMotion e2 forces dt;
             e4 = updateAngularMotion e3 torques dt;
             e5 = updateBattery e4 dt
         in e5\<lparr>state := (state e5)\<lparr>timestamp := timestamp (state e5) + dt\<rparr>\<rparr>))"

definition arm :: "engine \<Rightarrow> engine" where
  "arm e = e\<lparr>state := (state e)\<lparr>isArmed := True\<rparr>\<rparr>"

definition disarm :: "engine \<Rightarrow> engine" where
  "disarm e = e\<lparr>state := (state e)\<lparr>isArmed := False, motorSpeeds := fill0 (motorSpeeds (state e))\<rparr>\<rparr>"

definition reset :: "engine \<Rightarrow> engine" where
  "reset e =
     e\<lparr>batteryUsedAh := 0,
       state := (state e)
         \<lparr>position := homePosition e,
          velocity := Vector3 0 0 0,
          rotation := \<lparr>quat_x = 0, quat_y = 0, quat_z = 0, quat_w = 1\<rparr>,
          angularVelocity := Vector3 0 0 0,
          motorSpeeds := fill0 (motorSpeeds (state e)),
          batteryPercentage := 100,
          batteryVoltage := battery_cells (config e) * 4.2,
          isArmed := False,
          isCollided := False\<rparr>\<rparr>"

text \<open>A run of ticks, one control vector and one step size per tick.\<close>

fun updates :: "world \<Rightarrow> engine \<Rightarrow> (controls \<times> real) list \<Rightarrow> engine" where
  "updates w e [] = e"
| "updates w e ((c, dt) # rest) = updates w (update w e c dt) rest"

section \<open>The PID controller (\<open>js/utils/pid-controller.js\<close>)\<close>

text \<open>
  The output limits default to \<open>-Infinity\<close> and \<open>Infinity\<close>: a limit is \<open>None\<close> when
  it is infinite. \<open>previousTime\<close> is \<open>None\<close> for \<open>null\<close>. The reading of
  \<open>performance.now()\<close> is an argument of \<open>pid_update\<close>, and so is \<open>dt\<close>, \<open>None\<close> for
  \<open>null\<close>.
\<close>

record PIDController =
  kp :: real
  ki :: real
  kd :: real
  outputMin :: "real option"
  outputMax :: "real option"
  integral :: real
  previousError :: real
  previousTime :: "real option"

definition newPID :: "real \<Rightarrow> real \<Rightarrow> real \<Rightarrow> real option \<Rightarrow> real option \<Rightarrow> PIDController" where
  "newPID p i d lo hi =
     \<lparr>kp = p, ki = i, kd = d, outputMin = lo, outputMax = hi,
      integral = 0, previousError = 0, previousTime = None\<rparr>"

text \<open>\<open>Math.max(this.outputMin, Math.min(this.outputMax, output))\<close>.\<close>

definition clampOutput :: "real option \<Rightarrow> real option \<Rightarrow> real \<Rightarrow> real" where
  "clampOutput lo hi v =
     (let upper = (case hi of None \<Rightarrow> v | Some h \<Rightarrow> min h v)
      in case lo of None \<Rightarrow> upper | Some l \<Rightarrow> max l upper)"

definition pid_update :: "PIDController \<Rightarrow> real \<Rightarrow> real \<Rightarrow> real option \<Rightarrow> real \<Rightarrow> real \<times> PIDController" where
  "pid_update c setpoint measured dt currentTime =
     (case previousTime c of
        None \<Rightarrow> (0, c\<lparr>previousTime := Some currentTime\<rparr>)
      | Some prev \<Rightarrow>
          (let dt1 = (case dt of None \<Rightarrow> (currentTime - prev) / 1000 | Some d \<Rightarrow> d);
               error = setpoint - measured;
               pTerm = kp c * error;
               integral1 = integral c + error * dt1;
               iTerm = ki c * integral1;
               derivative = (error - previousError c) / dt1;
               dTerm = kd c * derivative;
               output = clampOutput (outputMin c) (outputMax c) (pTerm + iTerm + dTerm);
               integral2 = (if Some output = outputMin c \<or> Some output = outputMax c
                            then integral1 - error * dt1 else integral1)
           in (output, c\<lparr>previousTime := Some currentTime, integral := integral2,
                          previousError := error\<rparr>)))"

definition pid_reset :: "PIDController \<Rightarrow> PIDController" where
  "pid_reset c = c\<lparr>integral := 0, previousError := 0, previousTime := None\<rparr>"

text \<open>An output is saturated when it equals one of the limits.\<close>

definition saturated :: "PIDController \<Rightarrow> real \<Rightarrow> bool" where
  "saturated c out = (Some out = outputMin c \<or> Some out = outputMax c)"

subsection \<open>The update in double arithmetic\<close>

text \<open>
  \<open>pid_update\<close> above computes in exact arithmetic. The accumulator of the controller is
  stored from call to call, so its value depends on the rounding of every operation; the
  same method is therefore also given with each operation rounded as a double.

  \<open>fl x\<close> is \<open>x\<close> rounded to the nearest double, ties to the even significand: 53
  significant bits, and multiples of \<open>2\<^sup>-\<^sup>1\<^sup>0\<^sup>7\<^sup>4\<close> in the subnormal range. \<open>dbl x\<close> is the
  result of an operation whose exact value is \<open>x\<close>: \<open>None\<close> when the rounded value is not
  a finite double (an infinity in the source). A division by zero gives an infinity or NaN
  and is \<open>None\<close> as well. The arguments and the fields of the controller are doubles.
\<close>

definition round_even :: "real \<Rightarrow> int" where
  "round_even q =
     (let f = \<lfloor>q\<rfloor>; r = q - of_int f
      in if r < 1 / 2 then f else if 1 / 2 < r then f + 1 else if even f then f else f + 1)"

definition ulp_exponent :: "real \<Rightarrow> int" where
  "ulp_exponent x = max (\<lfloor>log 2 \<bar>x\<bar>\<rfloor> - 52) (- 1074)"

definition fl :: "real \<Rightarrow> real" where
  "fl x = (if x = 0 then 0
           else of_int (round_even (x / 2 powr of_int (ulp_exponent x))) * 2 powr of_int (ulp_exponent x))"

definition overflow_threshold :: real where
  "overflow_threshold = 2 powr 1024"

definition underflow_unit :: real where
  "underflow_unit = 2 powr (- 1074)"

definition dbl :: "real \<Rightarrow> real option" where
  "dbl x = (if \<bar>fl x\<bar> < overflow_threshold then Some (fl x) else None)"

definition ddiv :: "real \<Rightarrow> real \<Rightarrow> real option" where
  "ddiv a b = (if b = 0 then None else dbl (a / b))"

text \<open>
  The step size of a call, the accumulation \<open>error \<sqdot> dt\<close> of a call, and the call itself,
  operation by operation in the order of the source.
\<close>

definition stepDt :: "PIDController \<Rightarrow> real option \<Rightarrow> real \<Rightarrow> real option" where
  "stepDt c dt currentTime =
     (case dt of
        Some d \<Rightarrow> Some d
      | None \<Rightarrow>
          (case previousTime c of
             None \<Rightarrow> None
           | Some prev \<Rightarrow> do { d \<leftarrow> dbl (currentTime - prev); ddiv d 1000 }))"

definition pid_accumulation :: "PIDController \<Rightarrow> real \<Rightarrow> real \<Rightarrow> real option \<Rightarrow> real \<Rightarrow> real option" where
  "pid_accumulation c setpoint measured dt currentTime =
     do { dt1 \<leftarrow> stepDt c dt currentTime;
          error \<leftarrow> dbl (setpoint - measured);
          dbl (error * dt1) }"

definition pid_update_d :: "PIDController \<Rightarrow> real \<Rightarrow> real \<Rightarrow> real option \<Rightarrow> real \<Rightarrow> (real \<times> PIDController) option" where
  "pid_update_d c setpoint measured dt currentTime =
     (case previousTime c of
        None \<Rightarrow> Some (0, c\<lparr>previousTime := Some currentTime\<rparr>)
      | Some prev \<Rightarrow>
          do { dt1 \<leftarrow> stepDt c dt currentTime;
               error \<leftarrow> dbl (setpoint - measured);
               pTerm \<leftarrow> dbl (kp c * error);
               acc \<leftarrow> dbl (error * dt1);
               integral1 \<leftarrow> dbl (integral c + acc);
               iTerm \<leftarrow> dbl (ki c * integral1);
               de \<leftarrow> dbl (error - previousError c);
               derivative \<leftarrow> ddiv de dt1;
               dTerm \<leftarrow> dbl (kd c * derivative);
               sumPI \<leftarrow> dbl (pTerm + iTerm);
               output0 \<leftarrow> dbl (sumPI + dTerm);
               let output = clampOutput (outputMin c) (outputMax c) output0;
               integral2 \<leftarrow> (if Some output = outputMin c \<or> Some output = outputMax c
                              then do { acc2 \<leftarrow> dbl (error * dt1); dbl (integral1 - acc2) }
                              else Some integral1);
               Some (output, c\<lparr>previousTime := Some currentTime, integral := integral2,
                                 previousError := error\<rparr>) })"

subsection \<open>The cascaded controller\<close>

record CascadedPIDController =
  rollPID :: PIDController
  pitchPID :: PIDController
  yawPID :: PIDController
  altitudePID :: PIDController
  positionXPID :: PIDController
  positionYPID :: PIDController

definition newCascaded :: CascadedPIDController where
  "newCascaded =
     \<lparr>rollPID = newPID 4.0 0.05 1.2 (Some (- 1)) (Some 1),
      pitchPID = newPID 4.0 0.05 1.2 (Some (- 1)) (Some 1),
      yawPID = newPID 3.0 0.01 0.5 (Some (- 1)) (Some 1),
      altitudePID = newPID 2.0 0.0 1.5 (Some (- 1)) (Some 1),
      positionXPID = newPID 0.5 0.0 0.2 (Some (- 0.5)) (Some 0.5),
      positionYPID = newPID 0.5 0.0 0.2 (Some (- 0.5)) (Some 0.5)\<rparr>"

definition updateAltitude :: "CascadedPIDController \<Rightarrow> real \<Rightarrow> real \<Rightarrow> real option \<Rightarrow> real \<Rightarrow> real \<times> CascadedPIDController" where
  "updateAltitude pc desiredAltitude currentAltitude dt now =
     (let (out, a) = pid_update (altitudePID pc) desiredAltitude currentAltitude dt now
      in (out, pc\<lparr>altitudePID := a\<rparr>))"

section \<open>Return to home (\<open>FlightController.applyRTH\<close>)\<close>

text \<open>
  The fields of the flight controller that the mode controllers read and write; the
  keyboard, stick and DOM state is left out.
\<close>

record flight_controller =
  fc_controls :: controls
  pidController :: CascadedPIDController
  returnToHome :: bool
  flightMode :: string
  loiterTarget :: "vec3 option"

text \<open>The two loops that wrap the yaw error into \<open>[-\<pi>, \<pi>]\<close>.\<close>

function wrapDown :: "real \<Rightarrow> real" where
  "wrapDown yawErr = (if yawErr > pi then wrapDown (yawErr - 2 * pi) else yawErr)"
  by pat_completeness auto
termination
proof (relation "measure (\<lambda>y. nat \<lceil>y / (2 * pi)\<rceil>)")
  show "wf (measure (\<lambda>y. nat \<lceil>y / (2 * pi)\<rceil>))" by simp
next
  fix yawErr :: real
  assume a: "pi < yawErr"
  have "(yawErr - 2 * pi) / (2 * pi) = yawErr / (2 * pi) - 1"
    by (simp add: diff_divide_distrib)
  then have c: "\<lceil>(yawErr - 2 * pi) / (2 * pi)\<rceil> = \<lceil>yawErr / (2 * pi)\<rceil> - 1"
    by simp
  have "0 < yawErr" using a pi_gt_zero by linarith
  then have "0 < yawErr / (2 * pi)" using pi_gt_zero by simp
  then have "0 < \<lceil>yawErr / (2 * pi)\<rceil>" by simp
  with c show "(yawErr - 2 * pi, yawErr) \<in> measure (\<lambda>y. nat \<lceil>y / (2 * pi)\<rceil>)"
    by simp
qed

function wrapUp :: "real \<Rightarrow> real" where
  "wrapUp yawErr = (if yawErr < - pi then wrapUp (yawErr + 2 * pi) else yawErr)"
  by pat_completeness auto
termination
proof (relation "measure (\<lambda>y. nat \<lceil>(0 - y) / (2 * pi)\<rceil>)")
  show "wf (measure (\<lambda>y. nat \<lceil>(0 - y) / (2 * pi)\<rceil>))" by simp
next
  fix yawErr :: real
  assume a: "yawErr < - pi"
  define t where "t = 0 - yawErr"
  have "(0 - (yawErr + 2 * pi)) / (2 * pi) = (t - 2 * pi) / (2 * pi)"
    by (simp add: t_def)
  also have "\<dots> = t / (2 * pi) - 1"
    by (simp add: diff_divide_distrib)
  finally have c: "\<lceil>(0 - (yawErr + 2 * pi)) / (2 * pi)\<rceil> = \<lceil>t / (2 * pi)\<rceil> - 1"
    by simp
  have "0 < t" unfolding t_def using a pi_gt_zero by linarith
  then have "0 < t / (2 * pi)" using pi_gt_zero by simp
  then have "0 < \<lceil>t / (2 * pi)\<rceil>" by simp
  with c have "nat \<lceil>(0 - (yawErr + 2 * pi)) / (2 * pi)\<rceil> < nat \<lceil>t / (2 * pi)\<rceil>"
    by simp
  then show "(yawErr + 2 * pi, yawErr) \<in> measure (\<lambda>y. nat \<lceil>(0 - y) / (2 * pi)\<rceil>)"
    by (simp only: in_measure t_def)
qed

text \<open>The loop equations are unfolded by hand, one iteration at a time.\<close>

declare wrapDown.simps [simp del] wrapUp.simps [simp del]

text \<open>
  \<open>home\<close> is \<open>window.uavSimulator.physics.homePosition\<close>, or \<open>None\<close> when the simulator
  or its physics engine is absent; \<open>now\<close> is the clock reading of the altitude controller.
\<close>

definition applyRTH :: "flight_controller \<Rightarrow> state \<Rightarrow> real \<Rightarrow> vec3 option \<Rightarrow> real \<Rightarrow> flight_controller" where
  "applyRTH fc physicsState dt physicsHome now =
     (let home = (case physicsHome of Some h \<Rightarrow> h | None \<Rightarrow> Vector3 0 0 0);
          current = position physicsState;
          desiredAlt = max 5 (vec_y home + 2);
          (altCorr, pc) = updateAltitude (pidController fc) desiredAlt (vec_y current) (Some dt) now;
          throttle1 = max 0 (min 1 (throttle (fc_controls fc) + altCorr * 0.3));
          dir = vec_sub (home\<lparr>vec_y := 0\<rparr>) (current\<lparr>vec_y := 0\<rparr>);
          distance = vec_length dir;
          dir1 = (if distance > 0.01 then vec_normalize dir else dir);
          desiredYaw = atan2 (vec_x dir1) (vec_z dir1);
          yawNow = euler_y (rotation physicsState);
          yawErr = wrapUp (wrapDown (desiredYaw - yawNow));
          yaw1 = max (- 1) (min 1 (yawErr / (pi / 2)));
          forward = max 0.1 (min 0.5 (distance * 0.1));
          c1 = (fc_controls fc)\<lparr>throttle := throttle1, yaw := yaw1, pitch := forward\<rparr>;
          fc1 = fc\<lparr>pidController := pc, fc_controls := c1\<rparr>
      in if distance < 0.5 then
           (let fc2 = fc1\<lparr>fc_controls := c1\<lparr>pitch := 0, throttle := max 0 (throttle c1 - 0.01)\<rparr>\<rparr>
            in if vec_y (position physicsState) < 0.2
               then fc2\<lparr>returnToHome := False, flightMode := ''stabilize''\<rparr>
               else fc2)
         else fc1)"

text \<open>The horizontal distance to home that \<open>applyRTH\<close> computes.\<close>

definition horizontalDistance :: "state \<Rightarrow> vec3 option \<Rightarrow> real" where
  "horizontalDistance physicsState physicsHome =
     (let home = (case physicsHome of Some h \<Rightarrow> h | None \<Rightarrow> Vector3 0 0 0)
      in vec_length (vec_sub (home\<lparr>vec_y := 0\<rparr>) ((position physicsState)\<lparr>vec_y := 0\<rparr>)))"

text \<open>The clamp that ends \<open>FlightController.update\<close>.\<close>

definition clampControls :: "controls \<Rightarrow> controls" where
  "clampControls c =
     c\<lparr>throttle := max 0 (min 1 (throttle c)),
       pitch := max (- 1) (min 1 (pitch c)),
       roll := max (- 1) (min 1 (roll c)),
       yaw := max (- 1) (min 1 (yaw c))\<rparr>"

text \<open>
  The flight controller as constructed, and \<open>setMode\<close>. \<open>physicsPosition\<close> is
  \<open>window.uavSimulator.physics.state.position\<close>, or \<open>None\<close> when the simulator or its
  physics engine is absent.
\<close>

definition newFlightController :: flight_controller where
  "newFlightController =
     \<lparr>fc_controls = \<lparr>throttle = 0, pitch = 0, roll = 0, yaw = 0\<rparr>,
      pidController = newCascaded, returnToHome = False, flightMode = ''stabilize'',
      loiterTarget = None\<rparr>"

definition setMode :: "flight_controller \<Rightarrow> string \<Rightarrow> vec3 option \<Rightarrow> flight_controller" where
  "setMode fc mode physicsPosition =
     (let fc1 = fc\<lparr>flightMode := mode\<rparr>
      in if mode = ''loiter'' then fc1\<lparr>loiterTarget := physicsPosition\<rparr>
         else if mode = ''stabilize'' then fc1\<lparr>loiterTarget := None\<rparr>
         else if mode = ''rth'' then fc1\<lparr>returnToHome := True\<rparr>
         else fc1)"

section \<open>Definitions from the specification\<close>

text \<open>
  A control vector has its throttle in \<open>[0, 1]\<close> and its pitch, roll and yaw in
  \<open>[-1, 1]\<close>.
\<close>

definition isControlVector :: "controls \<Rightarrow> bool" where
  "isControlVector c =
     (0 \<le> throttle c \<and> throttle c \<le> 1 \<and> - 1 \<le> pitch c \<and> pitch c \<le> 1 \<and>
      - 1 \<le> roll c \<and> roll c \<le> 1 \<and> - 1 \<le> yaw c \<and> yaw c \<le> 1)"

text \<open>
  The signs of pitch, roll and yaw in the command of each motor of a quad: front-right,
  back-left, front-left, back-right.
\<close>

definition quadSigns :: "(real \<times> real \<times> real) list" where
  "quadSigns = [(- 1, 1, - 1), (1, - 1, - 1), (- 1, - 1, 1), (1, 1, 1)]"

text \<open>The command of a motor with signs \<open>(sp, sr, sy)\<close>: throttle \<open>\<plusminus>\<close> pitch
  \<open>\<plusminus>\<close> roll \<open>\<plusminus>\<close> yaw.\<close>

fun signedCommand :: "controls \<Rightarrow> real \<times> real \<times> real \<Rightarrow> real" where
  "signedCommand c (sp, sr, sy) = throttle c + sp * pitch c + sr * roll c + sy * yaw c"



section \<open>Concrete configurations\<close>

text \<open>
  The default configuration of the design lab (\<open>UAVCalculations\<close>), a calm environment,
  and two worlds: flat ground at height 0 and a plateau at height 5.
\<close>

definition defaultConfig :: uav_config where
  "defaultConfig =
     \<lparr>frame_type = ''quad-x'', frame_size = 450, frame_material = Carbon,
      propellers_size = 8, propellers_pitch = 5, propellers_blades = 2,
      motors_kv = 2300, battery_cells = 4, battery_capacity = 3300,
      payload_type = ''none''\<rparr>"

definition calmEnvironment :: environment where
  "calmEnvironment = \<lparr>env_temperature = 20, windSpeed = 0, windDirection = 0\<rparr>"

definition flatWorld :: world where
  "flatWorld = \<lparr>terrainGenerator = Some (\<lambda>x z. 0), permutation = [0..<256] @ [0..<256]\<rparr>"


definition fullThrottle :: controls where
  "fullThrottle = \<lparr>throttle = 1, pitch = 0, roll = 0, yaw = 0\<rparr>"

definition zeroThrottle :: controls where
  "zeroThrottle = \<lparr>throttle = 0, pitch = 0, roll = 0, yaw = 0\<rparr>"




text \<open>The default aircraft after a crash: collided, with the motor speeds of the crash tick.\<close>

definition crashedEngine :: engine where
  "crashedEngine =
     (let e = PhysicsEngine defaultConfig calmEnvironment
      in e\<lparr>state := (state e)\<lparr>isCollided := True, motorSpeeds := [1, 1, 1, 1]\<rparr>\<rparr>)"

text \<open>The default aircraft, armed at its start position, and a control vector.\<close>

definition armedEngine :: engine where
  "armedEngine = arm (PhysicsEngine defaultConfig calmEnvironment)"

definition bankedControls :: controls where
  "bankedControls = \<lparr>throttle = 0.5, pitch = 0.2, roll = - 0.1, yaw = 0.6\<rparr>"



text \<open>The default aircraft, armed, with 2.97 Ah of its 3.3 Ah used: 10 percent left.\<close>

definition lowBatteryEngine :: engine where
  "lowBatteryEngine =
     (let e = arm (PhysicsEngine defaultConfig calmEnvironment)
      in e\<lparr>batteryUsedAh := 2.97, state := (state e)\<lparr>batteryPercentage := 10\<rparr>\<rparr>)"

text \<open>
  The roll controller with its gains 0.05 and 1.2 as doubles, and its states in the run
  \<open>update(0, 0, 1)\<close>, \<open>update(0.1, 0, 1)\<close>, \<open>update(1, 0, 0.7)\<close>: after the first call,
  after the second (integral 0.1), and after the third, which saturates.
\<close>

definition rollDouble :: PIDController where
  "rollDouble = newPID 4 (fl (1 / 20)) (fl (6 / 5)) (Some (- 1)) (Some 1)"

definition rollStarted :: PIDController where
  "rollStarted = rollDouble\<lparr>previousTime := Some 0\<rparr>"

definition rollAccumulated :: PIDController where
  "rollAccumulated =
     rollStarted\<lparr>previousTime := Some 1000, integral := fl (1 / 10), previousError := fl (1 / 10)\<rparr>"

definition rollSaturated :: PIDController where
  "rollSaturated =
     rollAccumulated\<lparr>previousTime := Some 1700,
                      integral := 900719925474099 / 9007199254740992, previousError := 1\<rparr>"


text \<open>The default configuration as a hexacopter, armed.\<close>

definition hexaEngine :: engine where
  "hexaEngine = arm (PhysicsEngine (defaultConfig\<lparr>frame_type := ''hexa''\<rparr>) calmEnvironment)"

text \<open>An aircraft state at a given position.\<close>

definition stateAt :: "vec3 \<Rightarrow> state" where
  "stateAt p = initialState\<lparr>position := p\<rparr>"

section \<open>Properties\<close>

subsection \<open>The stages of a tick\<close>

lemma motorResponse_id: "motorResponse e dt m = m"
proof -
  have "max (maxOmega e) 1 \<noteq> 0" by (simp add: max_def)
  then show ?thesis by (simp add: motorResponse_def Let_def)
qed

lemma length_fill0: "length (fill0 xs) = length xs"
  by (simp add: fill0_def)

lemma length_quadMix: "length (quadMix b p r y) = 4"
  by (simp add: quadMix_def)

lemma mapPrefix_append: "length xs = n \<Longrightarrow> mapPrefix n f (xs @ ys) = map f xs @ ys"
  by (simp add: mapPrefix_def)

lemma updateMotorSpeeds_speeds:
  "motorSpeeds (state (updateMotorSpeeds e c dt)) =
     map clamp01 (if getMotorCount (config e) = 4
                  then quadMix (max 0 (min 1 (throttle c))) (pitch c) (roll c) (yaw c)
                  else replicate (getMotorCount (config e)) (max 0 (min 1 (throttle c))))
       @ drop (getMotorCount (config e)) (motorSpeeds (state e))"
proof -
  define n where "n = getMotorCount (config e)"
  define mixed where "mixed = (if n = 4
                  then quadMix (max 0 (min 1 (throttle c))) (pitch c) (roll c) (yaw c)
                  else replicate n (max 0 (min 1 (throttle c))))"
  have len: "length mixed = n" by (simp add: mixed_def length_quadMix)
  have resp: "motorResponse e dt = (\<lambda>m. m)" by (rule ext) (rule motorResponse_id)
  have "motorSpeeds (state (updateMotorSpeeds e c dt)) =
          mapPrefix n (motorResponse e dt) (mapPrefix n clamp01 (assignPrefix mixed (motorSpeeds (state e))))"
    by (simp add: updateMotorSpeeds_def Let_def n_def mixed_def)
  also have "\<dots> = map clamp01 mixed @ drop n (motorSpeeds (state e))"
    using len by (simp add: assignPrefix_def mapPrefix_append resp)
  finally show ?thesis by (simp add: n_def mixed_def)
qed

lemma checkCollisions_fields:
  "motorSpeeds (state (checkCollisions w e)) = motorSpeeds (state e)"
  "velocity (state (checkCollisions w e)) = velocity (state e)"
  "batteryPercentage (state (checkCollisions w e)) = batteryPercentage (state e)"
  "config (checkCollisions w e) = config e"
  "totalMass (checkCollisions w e) = totalMass e"
  "armLength (checkCollisions w e) = armLength e"
  "batteryUsedAh (checkCollisions w e) = batteryUsedAh e"
  by (simp_all add: checkCollisions_def Let_def split: option.splits)

lemma checkCollisions_armed:
  "isArmed (state (checkCollisions w e)) \<Longrightarrow> isArmed (state e)"
  by (simp add: checkCollisions_def Let_def split: option.splits if_splits)

lemma updateLinearMotion_fields:
  "motorSpeeds (state (updateLinearMotion e f dt)) = motorSpeeds (state e)"
  "isArmed (state (updateLinearMotion e f dt)) = isArmed (state e)"
  "isCollided (state (updateLinearMotion e f dt)) = isCollided (state e)"
  "batteryPercentage (state (updateLinearMotion e f dt)) = batteryPercentage (state e)"
  "config (updateLinearMotion e f dt) = config e"
  "totalMass (updateLinearMotion e f dt) = totalMass e"
  "armLength (updateLinearMotion e f dt) = armLength e"
  by (simp_all add: updateLinearMotion_def Let_def)

lemma updateAngularMotion_fields:
  "motorSpeeds (state (updateAngularMotion e t dt)) = motorSpeeds (state e)"
  "isArmed (state (updateAngularMotion e t dt)) = isArmed (state e)"
  "isCollided (state (updateAngularMotion e t dt)) = isCollided (state e)"
  "position (state (updateAngularMotion e t dt)) = position (state e)"
  "velocity (state (updateAngularMotion e t dt)) = velocity (state e)"
  "batteryPercentage (state (updateAngularMotion e t dt)) = batteryPercentage (state e)"
  "config (updateAngularMotion e t dt) = config e"
  "totalMass (updateAngularMotion e t dt) = totalMass e"
  "armLength (updateAngularMotion e t dt) = armLength e"
  by (simp_all add: updateAngularMotion_def Let_def)

lemma updateBattery_fields:
  "motorSpeeds (state (updateBattery e dt)) = motorSpeeds (state e)"
  "isCollided (state (updateBattery e dt)) = isCollided (state e)"
  "position (state (updateBattery e dt)) = position (state e)"
  "velocity (state (updateBattery e dt)) = velocity (state e)"
  "config (updateBattery e dt) = config e"
  "totalMass (updateBattery e dt) = totalMass e"
  "armLength (updateBattery e dt) = armLength e"
  by (simp_all add: updateBattery_def batteryCutoff_def batteryAccounting_def Let_def)

lemma update_collided:
  "isCollided (state e) \<Longrightarrow> update w e c dt = shortCircuit e"
  by (simp add: update_def)

lemma update_motorSpeeds:
  "\<not> isCollided (state e) \<Longrightarrow>
   motorSpeeds (state (update w e c dt)) = motorSpeeds (state (motorStage e c dt))"
  by (simp add: update_def Let_def updateBattery_fields updateAngularMotion_fields
      updateLinearMotion_fields checkCollisions_fields)


lemma updateBattery_armed_imp:
  "isArmed (state (updateBattery e dt)) \<Longrightarrow> isArmed (state e)"
  by (simp add: updateBattery_def batteryCutoff_def batteryAccounting_def Let_def split: if_splits)

lemma updateBattery_cutoff:
  "batteryPercentage (state (updateBattery e dt)) < 10 \<Longrightarrow> \<not> isArmed (state (updateBattery e dt))"
  by (simp add: updateBattery_def batteryCutoff_def split: if_splits)

lemma update_state_fields:
  assumes "\<not> isCollided (state e)"
  shows "isArmed (state (update w e c dt)) =
           isArmed (state (updateBattery (updateAngularMotion (updateLinearMotion
              (checkCollisions w (motorStage e c dt))
              (calculateForces w (checkCollisions w (motorStage e c dt))) dt)
              (if isArmed (state (checkCollisions w (motorStage e c dt)))
               then calculateTorques (checkCollisions w (motorStage e c dt)) c else Vector3 0 0 0) dt) dt))"
    and "batteryPercentage (state (update w e c dt)) =
           batteryPercentage (state (updateBattery (updateAngularMotion (updateLinearMotion
              (checkCollisions w (motorStage e c dt))
              (calculateForces w (checkCollisions w (motorStage e c dt))) dt)
              (if isArmed (state (checkCollisions w (motorStage e c dt)))
               then calculateTorques (checkCollisions w (motorStage e c dt)) c else Vector3 0 0 0) dt) dt))"
  using assms by (simp_all add: update_def Let_def)

lemma update_armed_imp:
  assumes nc: "\<not> isCollided (state e)" and a: "isArmed (state (update w e c dt))"
  shows "isArmed (state (checkCollisions w (motorStage e c dt)))"
proof -
  from a have "isArmed (state (updateAngularMotion (updateLinearMotion
              (checkCollisions w (motorStage e c dt))
              (calculateForces w (checkCollisions w (motorStage e c dt))) dt)
              (if isArmed (state (checkCollisions w (motorStage e c dt)))
               then calculateTorques (checkCollisions w (motorStage e c dt)) c else Vector3 0 0 0) dt))"
    unfolding update_state_fields(1)[OF nc] by (rule updateBattery_armed_imp)
  then show ?thesis
    by (simp only: updateAngularMotion_fields updateLinearMotion_fields)
qed

lemma update_cutoff:
  assumes nc: "\<not> isCollided (state e)" and b: "batteryPercentage (state (update w e c dt)) < 10"
  shows "\<not> isArmed (state (update w e c dt))"
  using b unfolding update_state_fields[OF nc] by (rule updateBattery_cutoff)

lemma state_PhysicsEngine:
  "state (PhysicsEngine cfg env) =
     initialState\<lparr>motorSpeeds := replicate (getMotorCount cfg) 0,
                  batteryVoltage := battery_cells cfg * 4.2\<rparr>"
  by (simp add: PhysicsEngine_def calculateProperties_def Let_def)

lemma getMotorCount_default: "getMotorCount defaultConfig = 4"
  by (simp add: getMotorCount_def defaultConfig_def)

lemma fill0_idem: "fill0 (fill0 xs) = fill0 xs"
  by (simp add: fill0_def)

lemma list_all_fill0: "list_all (\<lambda>m. m = 0) (fill0 xs)"
  by (simp add: fill0_def list_all_iff)

lemma updates_shortCircuit:
  "isCollided (state e) \<Longrightarrow> updates w (shortCircuit e) ticks = shortCircuit e"
proof (induction ticks)
  case Nil
  show ?case by simp
next
  case (Cons t ticks)
  obtain c dt where t: "t = (c, dt)" by (cases t)
  from Cons.prems have "update w (shortCircuit e) c dt = shortCircuit e"
    by (simp add: update_def shortCircuit_def fill0_idem)
  with Cons show ?case by (simp add: t)
qed

subsection \<open>Collision short-circuit\<close>

text \<open>
  C1. From a collided state, every run of one or more ticks, with any control inputs and
  any step sizes, ends in the state it started from with \<open>isArmed\<close> false and every
  motor speed 0: position, velocity, orientation, angular velocity, battery charge and
  timestamp are unchanged, and the aircraft stays collided until \<open>reset\<close>.
\<close>

theorem collided_short_circuit:
  assumes "isCollided (state e)" and "ticks \<noteq> []"
  shows "updates w e ticks =
           e\<lparr>state := (state e)\<lparr>isArmed := False, motorSpeeds := fill0 (motorSpeeds (state e))\<rparr>\<rparr>
       \<and> \<not> isArmed (state (updates w e ticks))
       \<and> list_all (\<lambda>m. m = 0) (motorSpeeds (state (updates w e ticks)))
       \<and> position (state (updates w e ticks)) = position (state e)
       \<and> velocity (state (updates w e ticks)) = velocity (state e)
       \<and> rotation (state (updates w e ticks)) = rotation (state e)
       \<and> angularVelocity (state (updates w e ticks)) = angularVelocity (state e)
       \<and> batteryUsedAh (updates w e ticks) = batteryUsedAh e
       \<and> batteryPercentage (state (updates w e ticks)) = batteryPercentage (state e)
       \<and> batteryVoltage (state (updates w e ticks)) = batteryVoltage (state e)
       \<and> timestamp (state (updates w e ticks)) = timestamp (state e)
       \<and> isCollided (state (updates w e ticks))
       \<and> \<not> isCollided (state (reset (updates w e ticks)))"
proof -
  from assms(2) obtain c dt rest where t: "ticks = (c, dt) # rest"
    by (cases ticks) auto
  have "update w e c dt = shortCircuit e"
    using assms(1) by (simp add: update_def shortCircuit_def)
  then have "updates w e ticks = shortCircuit e"
    using assms(1) by (simp add: t updates_shortCircuit)
  then show ?thesis
    using assms(1) by (simp add: shortCircuit_def list_all_fill0 reset_def)
qed

theorem collided_short_circuit_witness:
  "isCollided (state crashedEngine) \<and> [(fullThrottle, 1 / 120), (zeroThrottle, 1 / 120)] \<noteq> []
   \<and> \<not> isArmed (state (updates flatWorld crashedEngine [(fullThrottle, 1 / 120), (zeroThrottle, 1 / 120)]))
   \<and> motorSpeeds (state (updates flatWorld crashedEngine [(fullThrottle, 1 / 120), (zeroThrottle, 1 / 120)])) = [0, 0, 0, 0]
   \<and> timestamp (state (updates flatWorld crashedEngine [(fullThrottle, 1 / 120), (zeroThrottle, 1 / 120)])) = 0"
proof -
  have h: "isCollided (state crashedEngine)"
    by (simp add: crashedEngine_def Let_def)
  have ms: "motorSpeeds (state crashedEngine) = [1, 1, 1, 1]"
    by (simp add: crashedEngine_def Let_def)
  have ts: "timestamp (state crashedEngine) = 0"
    by (simp add: crashedEngine_def Let_def state_PhysicsEngine initialState_def)
  show ?thesis
    using h collided_short_circuit [OF h, of "[(fullThrottle, 1 / 120), (zeroThrottle, 1 / 120)]" flatWorld]
    by (simp add: ms ts fill0_def)
qed

subsection \<open>The motor stage and the short-circuit\<close>

lemma motorStage_fields:
  "position (state (motorStage e c dt)) = position (state e)"
  "velocity (state (motorStage e c dt)) = velocity (state e)"
  "isCollided (state (motorStage e c dt)) = isCollided (state e)"
  "isArmed (state (motorStage e c dt)) = isArmed (state e)"
  "batteryPercentage (state (motorStage e c dt)) = batteryPercentage (state e)"
  "config (motorStage e c dt) = config e"
  "totalMass (motorStage e c dt) = totalMass e"
  "armLength (motorStage e c dt) = armLength e"
  by (simp_all add: motorStage_def updateMotorSpeeds_def Let_def)

lemma motorStage_disarmed:
  "\<not> isArmed (state e) \<Longrightarrow> motorSpeeds (state (motorStage e c dt)) = fill0 (motorSpeeds (state e))"
  by (simp add: motorStage_def)

lemma motorStage_armed:
  "isArmed (state e) \<Longrightarrow>
   motorSpeeds (state (motorStage e c dt)) =
     map clamp01 (if getMotorCount (config e) = 4
                  then quadMix (max 0 (min 1 (throttle c))) (pitch c) (roll c) (yaw c)
                  else replicate (getMotorCount (config e)) (max 0 (min 1 (throttle c))))
       @ drop (getMotorCount (config e)) (motorSpeeds (state e))"
  by (simp add: motorStage_def Let_def updateMotorSpeeds_speeds)

lemma shortCircuit_fields:
  "isCollided (state (shortCircuit e)) = isCollided (state e)"
  "\<not> isArmed (state (shortCircuit e))"
  "motorSpeeds (state (shortCircuit e)) = fill0 (motorSpeeds (state e))"
  by (simp_all add: shortCircuit_def)




subsection \<open>Motor mixing and response\<close>

lemma clamp01_range: "0 \<le> clamp01 v \<and> clamp01 v \<le> 1"
  by (simp add: clamp01_def)

lemma update_never_arms:
  assumes "\<not> isArmed (state e)"
  shows "\<not> isArmed (state (update w e c dt))"
proof (cases "isCollided (state e)")
  case True
  then show ?thesis by (simp add: update_collided shortCircuit_fields)
next
  case False
  show ?thesis
  proof
    assume "isArmed (state (update w e c dt))"
    then have "isArmed (state (checkCollisions w (motorStage e c dt)))"
      by (rule update_armed_imp [OF False])
    then have "isArmed (state (motorStage e c dt))" by (rule checkCollisions_armed)
    with assms show False by (simp add: motorStage_fields)
  qed
qed

lemma update_preserves:
  "config (update w e c dt) = config e"
  "totalMass (update w e c dt) = totalMass e"
  "armLength (update w e c dt) = armLength e"
  by (simp_all add: update_def shortCircuit_def Let_def updateBattery_fields
      updateAngularMotion_fields updateLinearMotion_fields checkCollisions_fields motorStage_fields)

lemma update_length:
  assumes "length (motorSpeeds (state e)) = getMotorCount (config e)"
  shows "length (motorSpeeds (state (update w e c dt))) = getMotorCount (config e)"
proof (cases "isCollided (state e)")
  case True
  then show ?thesis using assms by (simp add: update_collided shortCircuit_fields length_fill0)
next
  case False
  show ?thesis
  proof (cases "isArmed (state e)")
    case True
    then show ?thesis
      using assms False by (simp add: update_motorSpeeds motorStage_armed length_quadMix)
  next
    case na: False
    then show ?thesis
      using assms False by (simp add: update_motorSpeeds motorStage_disarmed length_fill0)
  qed
qed

lemma PhysicsEngine_length:
  "length (motorSpeeds (state (PhysicsEngine cfg env))) = getMotorCount (config (PhysicsEngine cfg env))"
  by (simp add: state_PhysicsEngine) (simp add: PhysicsEngine_def calculateProperties_def Let_def)

lemma updates_length:
  "length (motorSpeeds (state e)) = getMotorCount (config e) \<Longrightarrow>
   length (motorSpeeds (state (updates w e ticks))) = getMotorCount (config e)"
proof (induction ticks arbitrary: e)
  case Nil
  then show ?case by simp
next
  case (Cons t ticks)
  obtain c dt where t: "t = (c, dt)" by (cases t)
  have "length (motorSpeeds (state (update w e c dt))) = getMotorCount (config (update w e c dt))"
    using Cons.prems by (simp add: update_length update_preserves)
  then have "length (motorSpeeds (state (updates w (update w e c dt) ticks)))
               = getMotorCount (config (update w e c dt))"
    by (rule Cons.IH)
  then show ?case by (simp add: t update_preserves)
qed

lemma quadMix_signs:
  "quadMix (throttle c) (pitch c) (roll c) (yaw c) = map (signedCommand c) quadSigns"
  by (simp add: quadMix_def quadSigns_def)

text \<open>
  C7. For every control vector and every armed, non-collided state whose motor array has
  one entry per motor: after the tick, with 4 motors the stored speed of each motor is
  the command throttle \<open>\<plusminus>\<close> pitch \<open>\<plusminus>\<close> roll \<open>\<plusminus>\<close> yaw clamped to \<open>[0, 1]\<close>, with the
  sign pattern of that motor, and the four patterns are distinct; with 6 or 8 motors every
  stored speed is the clamped throttle; in all cases every stored speed lies in \<open>[0, 1]\<close>.
\<close>

theorem motor_mixing:
  assumes armed: "isArmed (state e)" and nc: "\<not> isCollided (state e)"
    and len: "length (motorSpeeds (state e)) = getMotorCount (config e)"
    and cv: "isControlVector c"
  shows "(getMotorCount (config e) = 4 \<longrightarrow>
            motorSpeeds (state (update w e c dt)) = map (\<lambda>sg. clamp01 (signedCommand c sg)) quadSigns)
       \<and> distinct quadSigns
       \<and> (getMotorCount (config e) = 6 \<or> getMotorCount (config e) = 8 \<longrightarrow>
            motorSpeeds (state (update w e c dt)) = replicate (getMotorCount (config e)) (clamp01 (throttle c)))
       \<and> (\<forall>m \<in> set (motorSpeeds (state (update w e c dt))). 0 \<le> m \<and> m \<le> 1)
       \<and> length (motorSpeeds (state (update w e c dt))) = getMotorCount (config e)"
proof -
  let ?n = "getMotorCount (config e)"
  let ?mixed = "if ?n = 4 then quadMix (max 0 (min 1 (throttle c))) (pitch c) (roll c) (yaw c)
                else replicate ?n (max 0 (min 1 (throttle c)))"
  from cv have b: "max 0 (min 1 (throttle c)) = throttle c"
    by (simp add: isControlVector_def)
  have ms: "motorSpeeds (state (update w e c dt)) = map clamp01 ?mixed"
    using armed nc len by (simp add: update_motorSpeeds motorStage_armed)
  have quad: "?n = 4 \<longrightarrow> motorSpeeds (state (update w e c dt)) = map (\<lambda>sg. clamp01 (signedCommand c sg)) quadSigns"
    by (simp add: ms b quadMix_signs comp_def)
  have d: "distinct quadSigns" by (simp add: quadSigns_def)
  have other: "?n = 6 \<or> ?n = 8 \<longrightarrow>
      motorSpeeds (state (update w e c dt)) = replicate ?n (clamp01 (throttle c))"
    using b by (auto simp add: ms clamp01_def)
  have range: "\<forall>m \<in> set (motorSpeeds (state (update w e c dt))). 0 \<le> m \<and> m \<le> 1"
    unfolding ms using clamp01_range by auto
  have l: "length (motorSpeeds (state (update w e c dt))) = ?n"
    using len by (rule update_length)
  from quad d other range l show ?thesis by blast
qed

lemma armedEngine_facts:
  "isArmed (state armedEngine)"
  "\<not> isCollided (state armedEngine)"
  "length (motorSpeeds (state armedEngine)) = getMotorCount (config armedEngine)"
  "getMotorCount (config armedEngine) = 4"
  "config armedEngine = defaultConfig"
  by (simp_all add: armedEngine_def arm_def state_PhysicsEngine initialState_def getMotorCount_default)
     (simp_all add: PhysicsEngine_def calculateProperties_def Let_def getMotorCount_default)

lemma hexaEngine_facts:
  "isArmed (state hexaEngine)"
  "\<not> isCollided (state hexaEngine)"
  "length (motorSpeeds (state hexaEngine)) = getMotorCount (config hexaEngine)"
  "getMotorCount (config hexaEngine) = 6"
proof -
  have n: "getMotorCount (defaultConfig\<lparr>frame_type := ''hexa''\<rparr>) = 6"
    by (simp add: getMotorCount_def)
  have c: "config hexaEngine = defaultConfig\<lparr>frame_type := ''hexa''\<rparr>"
    by (simp add: hexaEngine_def arm_def PhysicsEngine_def calculateProperties_def Let_def)
  show "isArmed (state hexaEngine)" "\<not> isCollided (state hexaEngine)"
    by (simp_all add: hexaEngine_def arm_def state_PhysicsEngine initialState_def)
  show "getMotorCount (config hexaEngine) = 6" by (simp only: c n)
  then show "length (motorSpeeds (state hexaEngine)) = getMotorCount (config hexaEngine)"
    by (simp add: hexaEngine_def arm_def state_PhysicsEngine n)
qed

theorem motor_mixing_witness:
  "isArmed (state armedEngine) \<and> \<not> isCollided (state armedEngine)
   \<and> length (motorSpeeds (state armedEngine)) = getMotorCount (config armedEngine)
   \<and> isControlVector bankedControls
   \<and> getMotorCount (config armedEngine) = 4
   \<and> motorSpeeds (state (update flatWorld armedEngine bankedControls (1 / 120))) = [0, 0.2, 1, 1]
   \<and> isArmed (state hexaEngine) \<and> \<not> isCollided (state hexaEngine)
   \<and> length (motorSpeeds (state hexaEngine)) = getMotorCount (config hexaEngine)
   \<and> getMotorCount (config hexaEngine) = 6
   \<and> motorSpeeds (state (update flatWorld hexaEngine bankedControls (1 / 120)))
       = [0.5, 0.5, 0.5, 0.5, 0.5, 0.5]"
proof -
  have cv: "isControlVector bankedControls"
    by (simp add: isControlVector_def bankedControls_def)
  have quad: "motorSpeeds (state (update flatWorld armedEngine bankedControls (1 / 120))) = [0, 0.2, 1, 1]"
    using armedEngine_facts(4)
      motor_mixing [OF armedEngine_facts(1) armedEngine_facts(2) armedEngine_facts(3) cv, of flatWorld "1 / 120"]
    by (simp add: quadSigns_def bankedControls_def clamp01_def)
  have hexa: "motorSpeeds (state (update flatWorld hexaEngine bankedControls (1 / 120)))
       = [0.5, 0.5, 0.5, 0.5, 0.5, 0.5]"
    using hexaEngine_facts(4)
      motor_mixing [OF hexaEngine_facts(1) hexaEngine_facts(2) hexaEngine_facts(3) cv, of flatWorld "1 / 120"]
    by (simp add: bankedControls_def clamp01_def numeral_eq_Suc)
  show ?thesis
    using cv armedEngine_facts(1-4) hexaEngine_facts quad hexa by simp
qed



text \<open>
  C6. The response step returns the stored command, whatever the step size and the prior
  speed: the default aircraft with its motors at 0 has every motor at 1 after one call
  with full throttle and \<open>dt = 1/120\<close>, where a lag at rate 20 would give \<open>1/6\<close>.
\<close>

theorem motor_response_is_immediate:
  "motorResponse e dt stored = stored
   \<and> motorSpeeds (state armedEngine) = [0, 0, 0, 0]
   \<and> motorSpeeds (state (updateMotorSpeeds armedEngine fullThrottle (1 / 120))) = [1, 1, 1, 1]"
proof -
  have r: "max (maxOmega e) 1 \<noteq> 0" by (simp add: max_def)
  have a: "motorSpeeds (state armedEngine) = [0, 0, 0, 0]"
    by (simp add: armedEngine_def arm_def state_PhysicsEngine getMotorCount_default numeral_eq_Suc)
  have b: "motorSpeeds (state (updateMotorSpeeds armedEngine fullThrottle (1 / 120))) = [1, 1, 1, 1]"
    by (simp add: a updateMotorSpeeds_speeds armedEngine_facts getMotorCount_default quadMix_def
        fullThrottle_def clamp01_def)
  from r have "motorResponse e dt stored = stored"
    by (simp add: motorResponse_def Let_def)
  with a b show ?thesis by simp
qed

subsection \<open>Ground contact\<close>








lemma update_linear:
  assumes "\<not> isCollided (state e)"
  shows "position (state (update w e c dt)) =
           position (state (updateLinearMotion (checkCollisions w (motorStage e c dt))
              (calculateForces w (checkCollisions w (motorStage e c dt))) dt))"
    and "velocity (state (update w e c dt)) =
           velocity (state (updateLinearMotion (checkCollisions w (motorStage e c dt))
              (calculateForces w (checkCollisions w (motorStage e c dt))) dt))"
  using assms
  by (simp_all add: update_def Let_def updateBattery_fields updateAngularMotion_fields)











subsection \<open>Crash detection\<close>




lemma update_ground_level:
  assumes "\<not> isCollided (state e)"
  shows "0.1 \<le> vec_y (position (state (update w e c dt)))"
proof -
  have "0.1 \<le> vec_y (position (state (updateLinearMotion e2 f dt)))" for e2 f
    by (simp add: updateLinearMotion_def Let_def)
  then show ?thesis by (simp add: update_linear [OF assms])
qed













subsection \<open>Battery cutoff\<close>

lemma batteryCutoff_percentage:
  "batteryPercentage (state (batteryCutoff e)) = batteryPercentage (state e)"
  by (simp add: batteryCutoff_def)

lemma batteryAccounting_percentage:
  "batteryPercentage (state (batteryAccounting e dt)) =
     max 0 (100 * (1 - (batteryUsedAh e + (totalCurrent e * dt) / 3600) / batteryCapacityAh e))"
proof -
  define q where "q = max 0 (100 * (1 - (batteryUsedAh e + (totalCurrent e * dt) / 3600) / batteryCapacityAh e))"
  have "batteryPercentage (state (batteryAccounting e dt)) = q"
    unfolding batteryAccounting_def Let_def q_def [symmetric] by simp
  then show ?thesis by (simp only: q_def)
qed

lemma updateBattery_percentage:
  "batteryPercentage (state (updateBattery e dt)) =
     max 0 (100 * (1 - (batteryUsedAh e + (totalCurrent e * dt) / 3600) / batteryCapacityAh e))"
  unfolding updateBattery_def batteryCutoff_percentage by (rule batteryAccounting_percentage)

lemma totalCurrent_cong:
  assumes "batteryVoltage (state a) = batteryVoltage (state b)" and "motorKv a = motorKv b"
    and "motorSpeeds (state a) = motorSpeeds (state b)"
  shows "totalCurrent a = totalCurrent b"
  using assms by (simp add: totalCurrent_def)

lemma battery_inputs:
  "batteryVoltage (state (motorStage e c dt)) = batteryVoltage (state e)"
  "motorKv (motorStage e c dt) = motorKv e"
  "batteryUsedAh (motorStage e c dt) = batteryUsedAh e"
  "batteryCapacityAh (motorStage e c dt) = batteryCapacityAh e"
  "batteryVoltage (state (checkCollisions w e)) = batteryVoltage (state e)"
  "motorKv (checkCollisions w e) = motorKv e"
  "batteryCapacityAh (checkCollisions w e) = batteryCapacityAh e"
  "batteryVoltage (state (updateLinearMotion e f dt)) = batteryVoltage (state e)"
  "motorKv (updateLinearMotion e f dt) = motorKv e"
  "batteryUsedAh (updateLinearMotion e f dt) = batteryUsedAh e"
  "batteryCapacityAh (updateLinearMotion e f dt) = batteryCapacityAh e"
  "batteryVoltage (state (updateAngularMotion e t dt)) = batteryVoltage (state e)"
  "motorKv (updateAngularMotion e t dt) = motorKv e"
  "batteryUsedAh (updateAngularMotion e t dt) = batteryUsedAh e"
  "batteryCapacityAh (updateAngularMotion e t dt) = batteryCapacityAh e"
  by (simp_all add: motorStage_def updateMotorSpeeds_def checkCollisions_def updateLinearMotion_def
      updateAngularMotion_def Let_def split: option.splits)

lemma update_batteryPercentage:
  assumes nc: "\<not> isCollided (state e)"
  shows "batteryPercentage (state (update w e c dt)) =
     max 0 (100 * (1 - (batteryUsedAh e + (totalCurrent (motorStage e c dt) * dt) / 3600)
                        / batteryCapacityAh e))"
proof -
  let ?e2 = "checkCollisions w (motorStage e c dt)"
  let ?e4 = "updateAngularMotion (updateLinearMotion ?e2 (calculateForces w ?e2) dt)
               (if isArmed (state ?e2) then calculateTorques ?e2 c else Vector3 0 0 0) dt"
  have tc: "totalCurrent ?e4 = totalCurrent (motorStage e c dt)"
    by (rule totalCurrent_cong)
       (simp_all only: battery_inputs updateAngularMotion_fields updateLinearMotion_fields
          checkCollisions_fields)
  have "batteryPercentage (state (update w e c dt)) = batteryPercentage (state (updateBattery ?e4 dt))"
    by (rule update_state_fields(2) [OF nc])
  also have "\<dots> = max 0 (100 * (1 - (batteryUsedAh ?e4 + (totalCurrent ?e4 * dt) / 3600)
                        / batteryCapacityAh ?e4))"
    by (rule updateBattery_percentage)
  finally show ?thesis
    by (simp only: tc battery_inputs checkCollisions_fields)
qed

lemma update_percentage_nonneg:
  assumes "0 \<le> batteryPercentage (state e)"
  shows "0 \<le> batteryPercentage (state (update w e c dt))"
proof (cases "isCollided (state e)")
  case True
  then show ?thesis using assms by (simp add: update_collided shortCircuit_def)
next
  case False
  then show ?thesis by (simp add: update_batteryPercentage)
qed

lemma updates_percentage_nonneg:
  "0 \<le> batteryPercentage (state e) \<Longrightarrow> 0 \<le> batteryPercentage (state (updates w e ticks))"
proof (induction ticks arbitrary: e)
  case Nil
  then show ?case by simp
next
  case (Cons t ticks)
  obtain c dt where t: "t = (c, dt)" by (cases t)
  from Cons.prems have "0 \<le> batteryPercentage (state (update w e c dt))"
    by (rule update_percentage_nonneg)
  then show ?case unfolding t updates.simps by (rule Cons.IH)
qed

text \<open>
  C4. When the battery percentage at the end of a tick is below 10, the aircraft is
  disarmed at the end of that tick and at the end of the next call to \<open>update\<close>, whatever
  its input. The cutoff changes the armed flag and nothing else: \<open>updateBattery\<close> is the
  battery accounting with \<open>isArmed\<close> cleared when the percentage is below 10, and the
  motor speeds are left as they are. The percentage that \<open>updateBattery\<close> stores is never
  negative, so it stays non-negative over every run of ticks, in particular from a newly
  constructed engine.
\<close>

theorem battery_cutoff:
  "(batteryPercentage (state (update w e c dt)) < 10 \<longrightarrow>
      \<not> isArmed (state (update w e c dt))
    \<and> \<not> isArmed (state (update w (update w e c dt) c' dt')))
   \<and> (batteryPercentage (state (batteryAccounting e dt)) < 10 \<longrightarrow>
        updateBattery e dt =
          (batteryAccounting e dt)\<lparr>state := (state (batteryAccounting e dt))\<lparr>isArmed := False\<rparr>\<rparr>)
   \<and> (\<not> batteryPercentage (state (batteryAccounting e dt)) < 10 \<longrightarrow>
        updateBattery e dt = batteryAccounting e dt)
   \<and> motorSpeeds (state (updateBattery e dt)) = motorSpeeds (state e)
   \<and> 0 \<le> batteryPercentage (state (updateBattery e dt))
   \<and> (0 \<le> batteryPercentage (state e) \<longrightarrow> 0 \<le> batteryPercentage (state (updates w e ticks)))
   \<and> 0 \<le> batteryPercentage (state (updates w (PhysicsEngine cfg env) ticks))"
proof -
  have a: "batteryPercentage (state (update w e c dt)) < 10 \<longrightarrow>
      \<not> isArmed (state (update w e c dt)) \<and> \<not> isArmed (state (update w (update w e c dt) c' dt'))"
  proof
    assume low: "batteryPercentage (state (update w e c dt)) < 10"
    have "\<not> isArmed (state (update w e c dt))"
    proof (cases "isCollided (state e)")
      case True
      then show ?thesis by (simp add: update_collided shortCircuit_fields)
    next
      case False
      then show ?thesis using low by (rule update_cutoff)
    qed
    then show "\<not> isArmed (state (update w e c dt)) \<and> \<not> isArmed (state (update w (update w e c dt) c' dt'))"
      by (simp add: update_never_arms)
  qed
  have b: "batteryPercentage (state (batteryAccounting e dt)) < 10 \<longrightarrow>
        updateBattery e dt =
          (batteryAccounting e dt)\<lparr>state := (state (batteryAccounting e dt))\<lparr>isArmed := False\<rparr>\<rparr>"
    by (simp add: updateBattery_def batteryCutoff_def)
  have c: "\<not> batteryPercentage (state (batteryAccounting e dt)) < 10 \<longrightarrow>
        updateBattery e dt = batteryAccounting e dt"
    by (simp add: updateBattery_def batteryCutoff_def)
  have d: "0 \<le> batteryPercentage (state (updateBattery e dt))"
    by (simp add: updateBattery_percentage)
  have i: "0 \<le> batteryPercentage (state (PhysicsEngine cfg env))"
    by (simp add: state_PhysicsEngine initialState_def)
  have f: "0 \<le> batteryPercentage (state (updates w (PhysicsEngine cfg env) ticks))"
    using i by (rule updates_percentage_nonneg)
  from a b c d f show ?thesis
    by (simp add: updateBattery_fields updates_percentage_nonneg)
qed

lemma lowBattery_facts:
  "\<not> isCollided (state lowBatteryEngine)"
  "isArmed (state lowBatteryEngine)"
  "config lowBatteryEngine = defaultConfig"
  "motorSpeeds (state lowBatteryEngine) = [0, 0, 0, 0]"
  "batteryUsedAh lowBatteryEngine = 2.97"
  "batteryCapacityAh lowBatteryEngine = 3.3"
  "batteryVoltage (state lowBatteryEngine) = 16.8"
  "motorKv lowBatteryEngine = 2300"
  by (simp_all add: lowBatteryEngine_def arm_def Let_def state_PhysicsEngine initialState_def
      getMotorCount_default numeral_eq_Suc)
     (simp_all add: PhysicsEngine_def calculateProperties_def Let_def defaultConfig_def)

lemma lowBattery_after:
  "batteryPercentage (state (update flatWorld lowBatteryEngine fullThrottle (1 / 120))) < 10"
proof -
  have ms: "motorSpeeds (state (motorStage lowBatteryEngine fullThrottle (1 / 120))) = [1, 1, 1, 1]"
    by (simp add: motorStage_armed lowBattery_facts getMotorCount_default quadMix_def
        fullThrottle_def clamp01_def)
  have tc: "totalCurrent (motorStage lowBatteryEngine fullThrottle (1 / 120)) = 77.28"
    by (simp add: totalCurrent_def ms battery_inputs lowBattery_facts)
  show ?thesis
    by (simp add: update_batteryPercentage lowBattery_facts tc)
qed

theorem battery_cutoff_witness:
  "batteryPercentage (state lowBatteryEngine) = 10 \<and> isArmed (state lowBatteryEngine)
   \<and> batteryPercentage (state (update flatWorld lowBatteryEngine fullThrottle (1 / 120))) < 10
   \<and> \<not> isArmed (state (update flatWorld lowBatteryEngine fullThrottle (1 / 120)))
   \<and> \<not> isArmed (state (update flatWorld (update flatWorld lowBatteryEngine fullThrottle (1 / 120))
          fullThrottle (1 / 120)))
   \<and> 0 \<le> batteryPercentage (state (updates flatWorld lowBatteryEngine [(fullThrottle, 1 / 120)]))"
proof -
  have p: "batteryPercentage (state lowBatteryEngine) = 10"
    by (simp add: lowBatteryEngine_def Let_def)
  show ?thesis
    using p lowBattery_facts(2) lowBattery_after
      battery_cutoff [of flatWorld lowBatteryEngine fullThrottle "1 / 120" fullThrottle "1 / 120"
        "[(fullThrottle, 1 / 120)]"]
    by simp
qed

subsection \<open>PID anti-windup\<close>

lemma round_even_error: "\<bar>of_int (round_even q) - q\<bar> \<le> 1 / 2"
proof -
  have "of_int \<lfloor>q\<rfloor> \<le> q" "q < of_int \<lfloor>q\<rfloor> + 1" by linarith+
  then show ?thesis
    by (auto simp add: round_even_def Let_def abs_le_iff)
qed

lemma powr_ulp_bound:
  assumes "x \<noteq> 0"
  shows "2 powr of_int (ulp_exponent x) \<le> \<bar>x\<bar> / 2 ^ 52 + underflow_unit"
proof -
  have pos: "0 < \<bar>x\<bar>" using assms by simp
  have u0: "0 \<le> underflow_unit" by (simp only: underflow_unit_def powr_ge_zero)
  have "of_int (\<lfloor>log 2 \<bar>x\<bar>\<rfloor> - 52) \<le> log 2 \<bar>x\<bar> - 52" by simp
  then have "2 powr of_int (\<lfloor>log 2 \<bar>x\<bar>\<rfloor> - 52) \<le> 2 powr (log 2 \<bar>x\<bar> - 52)"
    by (simp only: powr_le_cancel_iff one_less_numeral_iff semiring_norm)
  also have "\<dots> = \<bar>x\<bar> / 2 ^ 52"
    using pos by (simp add: powr_diff powr_numeral)
  finally have a: "2 powr of_int (\<lfloor>log 2 \<bar>x\<bar>\<rfloor> - 52) \<le> \<bar>x\<bar> / 2 ^ 52" .
  have b: "2 powr of_int (- 1074) = underflow_unit"
    by (simp only: underflow_unit_def of_int_minus of_int_numeral)
  show ?thesis
  proof (cases "\<lfloor>log 2 \<bar>x\<bar>\<rfloor> - 52 \<le> - 1074")
    case True
    then have "ulp_exponent x = - 1074" by (simp add: ulp_exponent_def)
    then have "2 powr of_int (ulp_exponent x) = underflow_unit" by (simp only: b)
    moreover have "0 \<le> \<bar>x\<bar> / 2 ^ 52" by simp
    ultimately show ?thesis by linarith
  next
    case False
    then have "ulp_exponent x = \<lfloor>log 2 \<bar>x\<bar>\<rfloor> - 52" by (simp add: ulp_exponent_def)
    then have "2 powr of_int (ulp_exponent x) \<le> \<bar>x\<bar> / 2 ^ 52" using a by (simp only:)
    then show ?thesis using u0 by linarith
  qed
qed

lemma fl_error: "\<bar>fl x - x\<bar> \<le> \<bar>x\<bar> / 2 ^ 53 + underflow_unit / 2"
proof (cases "x = 0")
  case True
  have "0 \<le> underflow_unit" by (simp only: underflow_unit_def powr_ge_zero)
  then show ?thesis using True by (simp add: fl_def)
next
  case False
  define u :: real where "u = 2 powr of_int (ulp_exponent x)"
  have upos: "0 < u" by (simp add: u_def)
  have "fl x - x = (of_int (round_even (x / u)) - x / u) * u"
    using False upos by (simp add: fl_def u_def algebra_simps)
  then have "\<bar>fl x - x\<bar> = \<bar>of_int (round_even (x / u)) - x / u\<bar> * u"
    using upos by (simp add: abs_mult)
  also have "\<dots> \<le> (1 / 2) * u"
    using round_even_error [of "x / u"] upos by (intro mult_right_mono) simp_all
  also have "\<dots> \<le> (1 / 2) * (\<bar>x\<bar> / 2 ^ 52 + underflow_unit)"
    using powr_ulp_bound [OF False] by (simp add: u_def)
  also have "\<dots> = \<bar>x\<bar> / 2 ^ 53 + underflow_unit / 2" by simp
  finally show ?thesis .
qed

lemma powr_neg_int: "2 powr of_int (- int k) = 1 / (2::real) ^ k"
  by (simp add: powr_minus powr_realpow divide_inverse)

lemma fl_eval:
  assumes nz: "x \<noteq> 0" and lo: "2 ^ 52 \<le> \<bar>x\<bar> * 2 ^ k" and hi: "\<bar>x\<bar> * 2 ^ k < 2 ^ 53"
    and k: "k \<le> 1074"
  shows "fl x = of_int (round_even (x * 2 ^ k)) / 2 ^ k"
proof -
  have pos: "0 < \<bar>x\<bar>" using nz by simp
  have p: "(2::real) powr of_int (52 - int k) = 2 ^ 52 / 2 ^ k"
    by (simp add: powr_diff powr_realpow)
  have p1: "(2::real) powr (of_int (52 - int k) + 1) = 2 ^ 53 / 2 ^ k"
    by (simp add: powr_diff powr_add powr_realpow)
  have "2 powr of_int (52 - int k) \<le> \<bar>x\<bar>"
    unfolding p using lo by (simp add: divide_le_eq)
  moreover have "\<bar>x\<bar> < 2 powr (of_int (52 - int k) + 1)"
    unfolding p1 using hi by (simp add: less_divide_eq)
  ultimately have "\<lfloor>log 2 \<bar>x\<bar>\<rfloor> = 52 - int k"
    using pos by (simp add: floor_log_eq_powr_iff)
  then have e: "ulp_exponent x = - int k"
    using k by (simp add: ulp_exponent_def)
  have q: "(2::real) powr of_int (ulp_exponent x) = 1 / 2 ^ k"
    unfolding e by (rule powr_neg_int)
  show ?thesis
    using nz unfolding fl_def q by simp
qed

lemma finite_small: "\<bar>v\<bar> \<le> 1024 \<Longrightarrow> \<bar>v\<bar> < overflow_threshold"
proof -
  assume a: "\<bar>v\<bar> \<le> 1024"
  have "(2::real) powr 11 \<le> 2 powr 1024"
    by (simp only: powr_le_cancel_iff one_less_numeral_iff semiring_norm numeral_le_iff)
  moreover have "(2::real) powr 11 = 2048" by simp
  ultimately have "2048 \<le> overflow_threshold" by (simp only: overflow_threshold_def)
  with a show ?thesis by linarith
qed

lemma dbl_small: "\<bar>fl x\<bar> \<le> 1024 \<Longrightarrow> dbl x = Some (fl x)"
  by (simp add: dbl_def finite_small)

lemma dbl_Some: "dbl x = Some y \<Longrightarrow> y = fl x"
  by (simp add: dbl_def split: if_splits)

lemma roll_run_roundings:
  "fl (12980742146337070512478121581609 / 2596148429267413814265248164610048) = 1441151880758559 / 288230376151711744"
  "fl (25961484292674137422076541266821 / 649037107316853453566312041152512) = 5764607523034235 / 144115188075855872"
  "fl (1 / 20) = 3602879701896397 / 72057594037927936"
  "fl (900719925474099 / 9007199254740992) = 900719925474099 / 9007199254740992"
  "fl (1 / 10) = 3602879701896397 / 36028797018963968"
  "fl (3602879701896397 / 36028797018963968) = 3602879701896397 / 36028797018963968"
  "fl (19471113219505603967277331424215 / 162259276829213363391578010288128) = 1080863910568919 / 9007199254740992"
  "fl (3602879701896397 / 9007199254740992) = 3602879701896397 / 9007199254740992"
  "fl (116733302341443263 / 288230376151711744) = 1823957849085051 / 4503599627370496"
  "fl (4728779608739021 / 9007199254740992) = 4728779608739021 / 9007199254740992"
  "fl (3152519739159347 / 4503599627370496) = 3152519739159347 / 4503599627370496"
  "fl (7 / 10) = 3152519739159347 / 4503599627370496"
  "fl (28823037615171173 / 36028797018963968) = 7205759403792793 / 9007199254740992"
  "fl (32425917317067571 / 36028797018963968) = 8106479329266893 / 9007199254740992"
  "fl (1) = 1"
  "fl (6 / 5) = 5404319552844595 / 4503599627370496"
  "fl (8106479329266893 / 6305039478318694) = 5790342378047781 / 4503599627370496"
  "fl (31292860531348292669301377593695 / 20282409603651670423947251286016) = 6948410853657337 / 4503599627370496"
  "fl (4) = 4"
  "fl (582225359826457723 / 144115188075855872) = 4548635623644201 / 1125899906842624"
  "fl (25142953348234141 / 4503599627370496) = 6285738337058535 / 1125899906842624"
  by (simp_all add: fl_eval [where k = 50] fl_eval [where k = 52] fl_eval [where k = 53] fl_eval [where k = 54] fl_eval [where k = 56] fl_eval [where k = 57] fl_eval [where k = 60]
      round_even_def Let_def)

lemma roll_first: "pid_update_d rollDouble 0 0 (Some 1) 0 = Some (0, rollStarted)"
  by (simp add: pid_update_d_def rollDouble_def rollStarted_def newPID_def)

lemma roll_second:
  "pid_update_d rollStarted (fl (1 / 10)) 0 (Some 1) 1000
     = Some (4728779608739021 / 9007199254740992, rollAccumulated)"
  by (simp add: pid_update_d_def stepDt_def ddiv_def dbl_small roll_run_roundings rollAccumulated_def
      rollStarted_def rollDouble_def newPID_def clampOutput_def)

lemma roll_third:
  "pid_update_d rollAccumulated 1 0 (Some (fl (7 / 10))) 1700 = Some (1, rollSaturated)"
  by (simp add: pid_update_d_def stepDt_def ddiv_def dbl_small roll_run_roundings rollAccumulated_def
      rollSaturated_def rollStarted_def rollDouble_def newPID_def clampOutput_def)

lemma roll_third_accumulation:
  "pid_accumulation rollAccumulated 1 0 (Some (fl (7 / 10))) 1700
     = Some (3152519739159347 / 4503599627370496)"
  by (simp add: pid_accumulation_def stepDt_def dbl_small roll_run_roundings)

lemma roll_integrals:
  "previousTime rollAccumulated \<noteq> None"
  "saturated rollAccumulated 1"
  "integral rollAccumulated = 3602879701896397 / 36028797018963968"
  "integral rollSaturated = 900719925474099 / 9007199254740992"
  by (simp_all add: rollSaturated_def rollAccumulated_def rollStarted_def rollDouble_def newPID_def
      saturated_def roll_run_roundings)

lemma underflow_unit_nonneg: "0 \<le> underflow_unit"
  by (simp only: underflow_unit_def powr_ge_zero)

lemma undo_bound:
  "\<bar>fl (fl (i + a) - a) - i\<bar> \<le> (\<bar>i\<bar> + \<bar>a\<bar>) / 2 ^ 51 + 2 * underflow_unit"
proof -
  define u where "u = underflow_unit"
  define s where "s = i + a"
  define i1 where "i1 = fl s"
  define t where "t = i1 - a"
  define i2 where "i2 = fl t"
  define A where "A = \<bar>i\<bar> + \<bar>a\<bar>"
  define E1 where "E1 = \<bar>i1 - s\<bar>"
  define E2 where "E2 = \<bar>i2 - t\<bar>"
  have u0: "0 \<le> u" unfolding u_def by (rule underflow_unit_nonneg)
  have A0: "0 \<le> A" by (simp add: A_def)
  have sA: "\<bar>s\<bar> \<le> A" by (simp add: s_def A_def)
  have e1: "E1 \<le> \<bar>s\<bar> / 2 ^ 53 + u / 2"
    unfolding E1_def i1_def u_def by (rule fl_error)
  have e2: "E2 \<le> \<bar>t\<bar> / 2 ^ 53 + u / 2"
    unfolding E2_def i2_def u_def by (rule fl_error)
  have "t - i = i1 - s" by (simp add: t_def s_def)
  then have ti: "\<bar>t - i\<bar> = E1" by (simp add: E1_def)
  have tb: "\<bar>t\<bar> \<le> A + E1"
  proof -
    have "\<bar>t\<bar> \<le> \<bar>i\<bar> + \<bar>t - i\<bar>" by simp
    also have "\<dots> \<le> A + E1" by (simp add: ti A_def)
    finally show ?thesis .
  qed
  have E1b: "E1 \<le> A / 2 ^ 53 + u / 2"
  proof -
    have "\<bar>s\<bar> / 2 ^ 53 \<le> A / 2 ^ 53" using sA by (simp add: divide_right_mono)
    with e1 show ?thesis by linarith
  qed
  have E2b: "E2 \<le> (A + E1) / 2 ^ 53 + u / 2"
  proof -
    have "\<bar>t\<bar> / 2 ^ 53 \<le> (A + E1) / 2 ^ 53" using tb by (simp add: divide_right_mono)
    with e2 show ?thesis by linarith
  qed
  have "\<bar>i2 - i\<bar> \<le> E2 + E1"
  proof -
    have "\<bar>i2 - i\<bar> \<le> \<bar>i2 - t\<bar> + \<bar>t - i\<bar>" by simp
    then show ?thesis by (simp add: E2_def ti)
  qed
  also have "\<dots> \<le> A / 2 ^ 51 + 2 * u"
  proof -
    have d: "(A + E1) / 2 ^ 53 = A / 2 ^ 53 + E1 / 2 ^ 53" by (rule add_divide_distrib)
    have "E2 \<le> A / 2 ^ 53 + E1 / 2 ^ 53 + u / 2" using E2b unfolding d .
    with E1b A0 u0 show ?thesis by simp
  qed
  finally show ?thesis
    by (simp add: i2_def t_def i1_def s_def A_def u_def)
qed

lemma pid_update_d_integral:
  assumes p: "previousTime c = Some prev"
    and step: "pid_update_d c sp m dt now = Some (out, c')"
    and acc: "pid_accumulation c sp m dt now = Some acc"
  shows "saturated c out \<Longrightarrow> integral c' = fl (fl (integral c + acc) - acc)"
    and "\<not> saturated c out \<Longrightarrow> integral c' = fl (integral c + acc)"
proof -
  have "\<exists>i1 i2. dbl (integral c + acc) = Some i1
          \<and> (if saturated c out then dbl (i1 - acc) else Some i1) = Some i2 \<and> integral c' = i2"
    using step acc
    by (auto simp add: pid_update_d_def pid_accumulation_def p bind_eq_Some_conv Let_def
        saturated_def)
  then obtain i1 i2 where a: "dbl (integral c + acc) = Some i1"
    and b: "(if saturated c out then dbl (i1 - acc) else Some i1) = Some i2"
    and c: "integral c' = i2"
    by blast
  from a have i1: "i1 = fl (integral c + acc)" by (rule dbl_Some)
  show "saturated c out \<Longrightarrow> integral c' = fl (fl (integral c + acc) - acc)"
    using b c i1 by (auto dest: dbl_Some)
  show "\<not> saturated c out \<Longrightarrow> integral c' = fl (integral c + acc)"
    using b c i1 by simp
qed

text \<open>
  C5 (amended). In every call of \<open>PIDController.update\<close> after the first whose operations
  all give finite doubles and whose output equals \<open>outputMin\<close> or \<open>outputMax\<close>, the
  integral accumulator at the end of the call is \<open>(integral + error \<sqdot> dt) - error \<sqdot> dt\<close>
  evaluated in double arithmetic: the accumulation of the step is subtracted back out, and
  the accumulator differs from its value at the start of the call by rounding error only,
  at most \<open>(|integral| + |error \<sqdot> dt|) / 2\<^sup>5\<^sup>1 + 2\<^sup>-\<^sup>1\<^sup>0\<^sup>7\<^sup>3\<close>. When the output is not
  clamped the accumulation is kept.
\<close>

theorem anti_windup_up_to_rounding:
  assumes started: "previousTime c \<noteq> None"
    and step: "pid_update_d c sp m dt now = Some (out, c')"
    and acc: "pid_accumulation c sp m dt now = Some acc"
  shows "(saturated c out \<longrightarrow>
            integral c' = fl (fl (integral c + acc) - acc)
          \<and> \<bar>integral c' - integral c\<bar> \<le> (\<bar>integral c\<bar> + \<bar>acc\<bar>) / 2 ^ 51 + 2 * underflow_unit)
       \<and> (\<not> saturated c out \<longrightarrow> integral c' = fl (integral c + acc))"
proof -
  from started obtain prev where p: "previousTime c = Some prev" by auto
  note i = pid_update_d_integral [OF p step acc]
  show ?thesis
    using i undo_bound [of "integral c" acc] by auto
qed

theorem anti_windup_up_to_rounding_witness:
  "previousTime rollAccumulated \<noteq> None
   \<and> pid_update_d rollAccumulated 1 0 (Some (fl (7 / 10))) 1700 = Some (1, rollSaturated)
   \<and> pid_accumulation rollAccumulated 1 0 (Some (fl (7 / 10))) 1700
        = Some (3152519739159347 / 4503599627370496)
   \<and> saturated rollAccumulated 1
   \<and> integral rollSaturated
        = fl (fl (integral rollAccumulated + 3152519739159347 / 4503599627370496)
              - 3152519739159347 / 4503599627370496)
   \<and> \<bar>integral rollSaturated - integral rollAccumulated\<bar>
        \<le> (\<bar>integral rollAccumulated\<bar> + \<bar>3152519739159347 / 4503599627370496\<bar>) / 2 ^ 51
            + 2 * underflow_unit"
  using roll_integrals(1) roll_third roll_third_accumulation roll_integrals(2)
    anti_windup_up_to_rounding [OF roll_integrals(1) roll_third roll_third_accumulation]
  by blast

text \<open>
  C5 as stated fails: in the run \<open>update(0, 0, 1)\<close>, \<open>update(0.1, 0, 1)\<close>,
  \<open>update(1, 0, 0.7)\<close> of the roll controller the third call is clamped to \<open>outputMax\<close>,
  and the integral is 0.1 at its start and 0.09999999999999998 at its end.
\<close>

theorem anti_windup_exact_counterexample:
  "pid_update_d rollDouble 0 0 (Some 1) 0 = Some (0, rollStarted)
   \<and> pid_update_d rollStarted (fl (1 / 10)) 0 (Some 1) 1000
        = Some (4728779608739021 / 9007199254740992, rollAccumulated)
   \<and> previousTime rollAccumulated \<noteq> None
   \<and> pid_update_d rollAccumulated 1 0 (Some (fl (7 / 10))) 1700 = Some (1, rollSaturated)
   \<and> outputMax rollAccumulated = Some 1
   \<and> integral rollAccumulated = 3602879701896397 / 36028797018963968
   \<and> integral rollSaturated = 900719925474099 / 9007199254740992
   \<and> integral rollSaturated \<noteq> integral rollAccumulated"
proof -
  have m: "outputMax rollAccumulated = Some 1"
    by (simp add: rollAccumulated_def rollStarted_def rollDouble_def newPID_def)
  have ne: "integral rollSaturated \<noteq> integral rollAccumulated"
    by (simp add: roll_integrals)
  from roll_first roll_second roll_integrals(1) roll_third m roll_integrals(3) roll_integrals(4) ne
  show ?thesis by blast
qed

subsection \<open>Divisors of the integration steps\<close>










subsection \<open>Return to home\<close>

lemma applyRTH_far:
  assumes "\<not> horizontalDistance st home < 0.5"
  shows "pitch (fc_controls (applyRTH fc st dt home now)) = max 0.1 (min 0.5 (horizontalDistance st home * 0.1))"
    and "flightMode (applyRTH fc st dt home now) = flightMode fc"
    and "returnToHome (applyRTH fc st dt home now) = returnToHome fc"
  using assms
  by (simp_all add: applyRTH_def horizontalDistance_def Let_def split_beta)

lemma applyRTH_near:
  assumes "horizontalDistance st home < 0.5"
  shows "pitch (fc_controls (applyRTH fc st dt home now)) = 0"
    and "vec_y (position st) < 0.2 \<Longrightarrow> flightMode (applyRTH fc st dt home now) = ''stabilize''"
    and "vec_y (position st) < 0.2 \<Longrightarrow> \<not> returnToHome (applyRTH fc st dt home now)"
    and "\<not> vec_y (position st) < 0.2 \<Longrightarrow> flightMode (applyRTH fc st dt home now) = flightMode fc"
    and "\<not> vec_y (position st) < 0.2 \<Longrightarrow> returnToHome (applyRTH fc st dt home now) = returnToHome fc"
  using assms
  by (simp_all add: applyRTH_def horizontalDistance_def Let_def split_beta)

lemma clampControls_pitch:
  "- 1 \<le> pitch c \<Longrightarrow> pitch c \<le> 1 \<Longrightarrow> pitch (clampControls c) = pitch c"
  by (simp add: clampControls_def)

text \<open>
  C9. In \<open>applyRTH\<close>, while the horizontal distance to home is at least 0.5 the pitch
  command is \<open>0.1\<close> times the distance clamped to \<open>[0.1, 0.5]\<close> (so it equals \<open>0.1\<close> times
  the distance for distances from 1 to 5), the final clamp of the flight controller
  leaves it as it is, and the mode is kept. Once the distance is below 0.5 the pitch
  command is 0; when the altitude is below 0.2 as well the flight mode becomes
  \<open>stabilize\<close> and \<open>returnToHome\<close> is cleared, and otherwise the mode is kept.
\<close>

theorem rth_pitch_and_arrival:
  "(0.5 \<le> horizontalDistance st home \<longrightarrow>
       pitch (fc_controls (applyRTH fc st dt home now))
         = max 0.1 (min 0.5 (horizontalDistance st home * 0.1))
     \<and> 0.1 \<le> pitch (fc_controls (applyRTH fc st dt home now))
     \<and> pitch (fc_controls (applyRTH fc st dt home now)) \<le> 0.5
     \<and> (1 \<le> horizontalDistance st home \<and> horizontalDistance st home \<le> 5 \<longrightarrow>
          pitch (fc_controls (applyRTH fc st dt home now)) = 0.1 * horizontalDistance st home)
     \<and> pitch (clampControls (fc_controls (applyRTH fc st dt home now)))
         = pitch (fc_controls (applyRTH fc st dt home now))
     \<and> flightMode (applyRTH fc st dt home now) = flightMode fc
     \<and> returnToHome (applyRTH fc st dt home now) = returnToHome fc)
   \<and> (horizontalDistance st home < 0.5 \<longrightarrow>
       pitch (fc_controls (applyRTH fc st dt home now)) = 0
     \<and> (vec_y (position st) < 0.2 \<longrightarrow>
          flightMode (applyRTH fc st dt home now) = ''stabilize''
        \<and> \<not> returnToHome (applyRTH fc st dt home now))
     \<and> (\<not> vec_y (position st) < 0.2 \<longrightarrow>
          flightMode (applyRTH fc st dt home now) = flightMode fc
        \<and> returnToHome (applyRTH fc st dt home now) = returnToHome fc))"
proof (cases "horizontalDistance st home < 0.5")
  case True
  note n = applyRTH_near [OF True]
  show ?thesis using True by (simp add: n)
next
  case False
  note f = applyRTH_far [OF False]
  have p: "pitch (fc_controls (applyRTH fc st dt home now))
             = max 0.1 (min 0.5 (horizontalDistance st home * 0.1))"
    by (rule f(1))
  have lo: "0.1 \<le> pitch (fc_controls (applyRTH fc st dt home now))"
    and hi: "pitch (fc_controls (applyRTH fc st dt home now)) \<le> 0.5"
    unfolding p by simp_all
  have lin: "1 \<le> horizontalDistance st home \<and> horizontalDistance st home \<le> 5 \<longrightarrow>
          pitch (fc_controls (applyRTH fc st dt home now)) = 0.1 * horizontalDistance st home"
    unfolding p by (simp add: max_def min_def)
  have cl: "pitch (clampControls (fc_controls (applyRTH fc st dt home now)))
         = pitch (fc_controls (applyRTH fc st dt home now))"
    using lo hi by (intro clampControls_pitch) simp_all
  show ?thesis
    using False p lo hi lin cl f(2) f(3) by simp
qed

lemma vec_length_x: "vec_length \<lparr>vec_x = a, vec_y = 0, vec_z = 0\<rparr> = \<bar>a\<bar>"
  by (simp add: vec_length_def)

lemma horizontalDistance_x:
  "horizontalDistance (stateAt (Vector3 a b 0)) (Some (Vector3 0 h 0)) = \<bar>a\<bar>"
proof -
  have "horizontalDistance (stateAt (Vector3 a b 0)) (Some (Vector3 0 h 0))
          = vec_length \<lparr>vec_x = - a, vec_y = 0, vec_z = 0\<rparr>"
    by (simp add: horizontalDistance_def stateAt_def Vector3_def vec_sub_def)
  then show ?thesis by (simp only: vec_length_x abs_minus_cancel)
qed

theorem rth_pitch_and_arrival_witness:
  "0.5 \<le> horizontalDistance (stateAt (Vector3 50 10 0)) (Some (Vector3 0 2 0))
   \<and> pitch (fc_controls (applyRTH (setMode newFlightController ''rth'' None)
        (stateAt (Vector3 50 10 0)) (1 / 120) (Some (Vector3 0 2 0)) 0)) = 0.5
   \<and> horizontalDistance (stateAt (Vector3 0.3 0.1 0)) (Some (Vector3 0 2 0)) < 0.5
   \<and> vec_y (position (stateAt (Vector3 0.3 0.1 0))) < 0.2
   \<and> pitch (fc_controls (applyRTH (setMode newFlightController ''rth'' None)
        (stateAt (Vector3 0.3 0.1 0)) (1 / 120) (Some (Vector3 0 2 0)) 0)) = 0
   \<and> flightMode (applyRTH (setMode newFlightController ''rth'' None)
        (stateAt (Vector3 0.3 0.1 0)) (1 / 120) (Some (Vector3 0 2 0)) 0) = ''stabilize''"
proof -
  have far: "horizontalDistance (stateAt (Vector3 50 10 0)) (Some (Vector3 0 2 0)) = 50"
    by (simp add: horizontalDistance_x)
  have near: "horizontalDistance (stateAt (Vector3 0.3 0.1 0)) (Some (Vector3 0 2 0)) = 0.3"
    by (simp add: horizontalDistance_x)
  have low: "vec_y (position (stateAt (Vector3 0.3 0.1 0))) < 0.2"
    by (simp add: stateAt_def Vector3_def)
  show ?thesis
    using low
      rth_pitch_and_arrival [of "stateAt (Vector3 50 10 0)" "Some (Vector3 0 2 0)"
        "setMode newFlightController ''rth'' None" "1 / 120" 0]
      rth_pitch_and_arrival [of "stateAt (Vector3 0.3 0.1 0)" "Some (Vector3 0 2 0)"
        "setMode newFlightController ''rth'' None" "1 / 120" 0]
    by (simp add: far near)
qed

end
